theory Spec2Isabelle
  imports Complex_Main
begin

section \<open>The reference table\<close>

text \<open>
  The program interpolates the mean dwarf sequence of E. Mamajek.  The table is a set of
  module-level Python lists, one per column, aligned by position: entry \<open>i\<close> of every
  list describes the same spectral subtype.  Python floats are modelled as real numbers;
  the integer temperatures become reals when \<open>np.asarray\<close> meets the float query value.
\<close>

definition sptype :: "string list" where
  "sptype = [''O3V'', ''O4V'', ''O5V'', ''O5.5V'', ''O6V'', ''O6.5V'', ''O7V'', ''O7.5V'', ''O8V'', ''O8.5V'',
    ''O9V'', ''O9.5V'', ''B0V'', ''B0.5V'', ''B1V'', ''B1.5V'', ''B2V'', ''B2.5V'', ''B3V'', ''B4V'',
    ''B5V'', ''B6V'', ''B7V'', ''B8V'', ''B9V'', ''B9.5V'', ''A0V'', ''A1V'', ''A2V'', ''A3V'',
    ''A4V'', ''A5V'', ''A6V'', ''A7V'', ''A8V'', ''A9V'', ''F0V'', ''F1V'', ''F2V'', ''F3V'',
    ''F4V'', ''F5V'', ''F6V'', ''F7V'', ''F8V'', ''F9V'', ''F9.5V'', ''G0V'', ''G1V'', ''G2V'',
    ''G3V'', ''G4V'', ''G5V'', ''G6V'', ''G7V'', ''G8V'', ''G9V'', ''K0V'', ''K1V'', ''K2V'',
    ''K3V'', ''K4V'', ''K5V'', ''K6V'', ''K7V'', ''K8V'', ''K9V'', ''M0V'', ''M0.5V'', ''M1V'',
    ''M1.5V'', ''M2V'', ''M2.5V'', ''M3V'', ''M3.5V'', ''M4V'', ''M4.5V'', ''M5V'', ''M5.5V'', ''M6V'',
    ''M6.5V'', ''M7V'', ''M7.5V'', ''M8V'', ''M8.5V'', ''M9V'']"

definition Teff :: "real list" where
  "Teff = [44900, 42900, 41400, 40500, 39500, 38300, 37100, 36100, 35100, 34300,
    33300, 31900, 31400, 29000, 26000, 24500, 20600, 18500, 17000, 16400,
    15700, 14500, 14000, 12300, 10700, 10400, 9700, 9300, 8800, 8600,
    8250, 8100, 7910, 7760, 7590, 7400, 7220, 7020, 6820, 6750,
    6670, 6550, 6350, 6280, 6180, 6050, 5990, 5930, 5860, 5770,
    5720, 5680, 5660, 5600, 5550, 5480, 5380, 5270, 5170, 5100,
    4830, 4600, 4440, 4300, 4100, 3990, 3930, 3850, 3770, 3660,
    3620, 3560, 3470, 3430, 3270, 3210, 3110, 3060, 2930, 2810,
    2740, 2680, 2630, 2570, 2420, 2380]"

definition logTeff :: "real list" where
  "logTeff = [4.652, 4.632, 4.617, 4.607, 4.597, 4.583, 4.569, 4.558, 4.545, 4.535,
    4.522, 4.504, 4.497, 4.462, 4.415, 4.389, 4.314, 4.267, 4.230, 4.215,
    4.196, 4.161, 4.146, 4.090, 4.029, 4.017, 3.987, 3.968, 3.944, 3.934,
    3.917, 3.908, 3.898, 3.890, 3.880, 3.869, 3.859, 3.846, 3.834, 3.829,
    3.824, 3.816, 3.803, 3.798, 3.791, 3.782, 3.777, 3.773, 3.768, 3.761,
    3.757, 3.754, 3.753, 3.748, 3.744, 3.739, 3.731, 3.723, 3.713, 3.708,
    3.684, 3.663, 3.647, 3.633, 3.613, 3.601, 3.594, 3.585, 3.576, 3.563,
    3.559, 3.551, 3.540, 3.535, 3.515, 3.507, 3.493, 3.486, 3.467, 3.449,
    3.438, 3.428, 3.420, 3.410, 3.384, 3.377]"

definition BCv :: "real list" where
  "BCv = [- 4.010, - 3.890, - 3.760, - 3.670, - 3.570, - 3.490, - 3.410, - 3.330, - 3.240, - 3.180,
    - 3.110, - 3.010, - 2.990, - 2.830, - 2.580, - 2.440, - 2.030, - 1.770, - 1.540, - 1.490,
    - 1.340, - 1.130, - 1.050, - 0.730, - 0.420, - 0.360, - 0.210, - 0.140, - 0.070, - 0.040,
    - 0.020, 0.000, 0.005, 0.010, 0.020, 0.020, 0.010, 0.005, - 0.005, - 0.010,
    - 0.015, - 0.020, - 0.030, - 0.035, - 0.040, - 0.050, - 0.060, - 0.065, - 0.073, - 0.085,
    - 0.095, - 0.100, - 0.105, - 0.115, - 0.125, - 0.140, - 0.160, - 0.195, - 0.230, - 0.260,
    - 0.375, - 0.520, - 0.630, - 0.750, - 0.930, - 1.030, - 1.070, - 1.150, - 1.290, - 1.420,
    - 1.500, - 1.620, - 1.780, - 1.930, - 2.280, - 2.510, - 2.840, - 3.110, - 3.580, - 4.130,
    - 4.620, - 4.990, - 5.320, - 5.650, - 5.780, - 5.860]"

definition logL :: "real list" where
  "logL = [5.82, 5.65, 5.54, 5.44, 5.36, 5.27, 5.18, 5.09, 4.99, 4.91,
    4.82, 4.72, 4.65, 4.43, 4.13, 3.91, 3.43, 3.20, 2.99, 2.89,
    2.77, 2.57, 2.48, 2.19, 1.86, 1.80, 1.58, 1.49, 1.38, 1.23,
    1.13, 1.09, 1.05, 1.00, 0.96, 0.92, 0.86, 0.79, 0.71, 0.67,
    0.62, 0.56, 0.43, 0.39, 0.29, 0.22, 0.18, 0.13, 0.08, 0.01,
    - 0.01, - 0.04, - 0.05, - 0.10, - 0.13, - 0.17, - 0.26, - 0.34, - 0.39, - 0.43,
    - 0.55, - 0.69, - 0.76, - 0.86, - 1.00, - 1.06, - 1.10, - 1.16, - 1.27, - 1.39,
    - 1.44, - 1.54, - 1.64, - 1.79, - 2.03, - 2.14, - 2.40, - 2.52, - 2.79, - 2.98,
    - 3.10, - 3.19, - 3.24, - 3.28, - 3.47, - 3.52]"

definition Mbol :: "real list" where
  "Mbol = [- 9.81, - 9.39, - 9.11, - 8.87, - 8.67, - 8.44, - 8.21, - 7.98, - 7.74, - 7.53,
    - 7.31, - 7.06, - 6.89, - 6.33, - 5.58, - 5.04, - 3.83, - 3.27, - 2.74, - 2.49,
    - 2.19, - 1.68, - 1.45, - 0.73, 0.08, 0.24, 0.78, 1.02, 1.28, 1.66,
    1.92, 2.01, 2.13, 2.24, 2.34, 2.45, 2.58, 2.77, 2.97, 3.07,
    3.19, 3.35, 3.66, 3.77, 4.01, 4.20, 4.29, 4.42, 4.55, 4.72,
    4.78, 4.83, 4.88, 4.99, 5.08, 5.16, 5.39, 5.59, 5.72, 5.81,
    6.13, 6.46, 6.65, 6.89, 7.23, 7.40, 7.49, 7.65, 7.91, 8.22,
    8.35, 8.59, 8.82, 9.21, 9.82, 10.10, 10.74, 11.04, 11.72, 12.19,
    12.48, 12.71, 12.84, 12.95, 13.42, 13.54]"

definition Rsun :: "real list" where
  "Rsun = [13.43, 12.13, 11.45, 10.71, 10.27, 9.82, 9.42, 8.95, 8.47, 8.06,
    7.72, 7.50, 7.16, 6.48, 5.71, 5.02, 4.06, 3.89, 3.61, 3.46,
    3.36, 3.27, 2.94, 2.86, 2.49, 2.45, 2.19, 2.14, 2.12, 1.86,
    1.79, 1.78, 1.77, 1.75, 1.75, 1.75, 1.73, 1.68, 1.62, 1.58,
    1.53, 1.47, 1.36, 1.32, 1.22, 1.17, 1.14, 1.10, 1.06, 1.01,
    1.00, 0.99, 0.98, 0.95, 0.93, 0.91, 0.85, 0.81, 0.80, 0.78,
    0.76, 0.71, 0.70, 0.67, 0.63, 0.61, 0.61, 0.59, 0.54, 0.50,
    0.48, 0.45, 0.42, 0.36, 0.30, 0.27, 0.22, 0.20, 0.16, 0.14,
    0.13, 0.12, 0.12, 0.11, 0.10, 0.10]"

definition Mv :: "real list" where
  "Mv = [- 5.80, - 5.50, - 5.35, - 5.20, - 5.10, - 4.95, - 4.80, - 4.65, - 4.50, - 4.35,
    - 4.20, - 4.05, - 3.90, - 3.50, - 3.00, - 2.60, - 1.80, - 1.50, - 1.20, - 1.00,
    - 0.85, - 0.55, - 0.40, 0.00, 0.50, 0.60, 0.99, 1.16, 1.35, 1.70,
    1.94, 2.01, 2.12, 2.23, 2.32, 2.43, 2.57, 2.76, 2.97, 3.08,
    3.20, 3.37, 3.69, 3.80, 4.05, 4.25, 4.35, 4.48, 4.62, 4.80,
    4.87, 4.93, 4.98, 5.10, 5.20, 5.30, 5.55, 5.78, 5.95, 6.07,
    6.50, 6.98, 7.28, 7.64, 8.16, 8.43, 8.56, 8.80, 9.20, 9.64,
    9.85, 10.21, 10.61, 11.15, 12.10, 12.61, 13.58, 14.15, 15.30, 16.32,
    17.10, 17.70, 18.16, 18.60, 19.20, 19.40]"

definition BV :: "real list" where
  "BV = [- 0.330, - 0.326, - 0.323, - 0.322, - 0.321, - 0.319, - 0.318, - 0.317, - 0.315, - 0.314,
    - 0.312, - 0.307, - 0.301, - 0.289, - 0.278, - 0.252, - 0.215, - 0.198, - 0.178, - 0.165,
    - 0.156, - 0.140, - 0.128, - 0.109, - 0.070, - 0.050, 0.000, 0.035, 0.070, 0.100,
    0.140, 0.160, 0.185, 0.210, 0.250, 0.270, 0.295, 0.330, 0.370, 0.390,
    0.410, 0.440, 0.486, 0.500, 0.530, 0.560, 0.580, 0.595, 0.622, 0.650,
    0.660, 0.670, 0.680, 0.700, 0.710, 0.730, 0.775, 0.816, 0.857, 0.884,
    0.990, 1.090, 1.150, 1.240, 1.340, 1.363, 1.400, 1.420, 1.445, 1.485,
    1.495, 1.505, 1.522, 1.530, 1.600, 1.650, 1.690, 1.830, 1.940, 2.010,
    2.070, 2.120, 2.140, 2.150, 2.160, 2.170]"

definition Msun :: "real list" where
  "Msun = [59.00, 48.00, 43.00, 38.00, 35.00, 31.00, 28.00, 26.00, 23.60, 21.90,
    20.20, 18.70, 17.70, 14.80, 11.80, 9.90, 7.30, 6.10, 5.40, 5.10,
    4.70, 4.30, 3.92, 3.38, 2.75, 2.68, 2.18, 2.05, 1.98, 1.86,
    1.93, 1.88, 1.83, 1.77, 1.81, 1.75, 1.61, 1.50, 1.46, 1.44,
    1.38, 1.33, 1.25, 1.21, 1.18, 1.13, 1.08, 1.06, 1.03, 1.00,
    0.99, 0.98, 0.98, 0.97, 0.95, 0.94, 0.90, 0.88, 0.86, 0.82,
    0.78, 0.73, 0.70, 0.69, 0.64, 0.62, 0.59, 0.57, 0.54, 0.50,
    0.47, 0.44, 0.40, 0.37, 0.27, 0.23, 0.18, 0.16, 0.12, 0.10,
    0.09, 0.09, 0.09, 0.09, 0.08, 0.08]"

text \<open>
  The dictionary \<open>convers\<close> of the main block, in insertion order (the order in which
  \<open>convers.items()\<close> is walked).  The column \<open>BCv\<close> is not part of it.
\<close>

definition convers :: "(string \<times> real list) list" where
  "convers = [(''Teff'', Teff), (''logTeff'', logTeff), (''logL'', logL), (''Mbol'', Mbol),
     (''R'', Rsun), (''Mv'', Mv), (''BV'', BV), (''M'', Msun)]"


section \<open>Exceptions\<close>

text \<open>
  Every way in which a run can stop early is a value.  \<open>SystemExit n\<close> is
  \<open>sys.exit(n)\<close>; the others are the exceptions that the interpreter or the numeric
  libraries raise.  \<open>FloatNotReal\<close> is not an exception of the program: it marks the
  places where the IEEE result is \<open>nan\<close> or infinite (logarithm of a non-positive
  number, division of floats by zero inside numpy), which real numbers cannot
  represent; the model stops there instead of inventing a value.
\<close>

datatype pyerr = ValueError | IndexError | KeyError | AttributeError | TypeError
  | ZeroDivisionError | UnboundLocalError | NameError | SystemExit int | FloatNotReal

section \<open>The numeric library calls used by \<open>interpolate_in\<close>\<close>

subsection \<open>\<open>argmin\<close>\<close>

text \<open>
  \<open>a.argmin()\<close> returns the position of the first occurrence of the least entry and
  raises \<open>ValueError\<close> on an empty array.  \<open>argmin_from\<close> is the scan: \<open>i\<close> is the
  position of the head of the rest, \<open>b\<close> the least entry so far and \<open>bi\<close> its position;
  only a strictly smaller entry replaces it.
\<close>

fun argmin_from :: "real list \<Rightarrow> nat \<Rightarrow> real \<Rightarrow> nat \<Rightarrow> nat" where
  "argmin_from [] i b bi = bi"
| "argmin_from (x # xs) i b bi =
     (if x < b then argmin_from xs (Suc i) x i else argmin_from xs (Suc i) b bi)"

definition argmin :: "real list \<Rightarrow> pyerr + nat" where
  "argmin a = (case a of [] \<Rightarrow> Inl ValueError | x # xs \<Rightarrow> Inr (argmin_from xs 1 x 0))"

subsection \<open>\<open>linspace\<close> with an integer result type\<close>

text \<open>
  \<open>np.linspace(start, stop, num, dtype=int)\<close>: \<open>num\<close> evenly spaced floats from
  \<open>start\<close> to \<open>stop\<close>, the last one set to \<open>stop\<close> itself, each rounded down to an
  integer.  The step is \<open>(stop - start) / (num - 1)\<close>.  (In the three calls of the program
  the step is either exactly 1 or the inner values are at least 1/8 away from any integer,
  so rounding in the floats cannot change a floor.)
\<close>

definition linspace_int :: "int \<Rightarrow> int \<Rightarrow> nat \<Rightarrow> int list" where
  "linspace_int start stop num =
     (if num = 0 then []
      else if num = 1 then [start]
      else map (\<lambda>i. if i = num - 1 then stop
                     else \<lfloor>real_of_int start
                            + real i * (real_of_int (stop - start) / real (num - 1))\<rfloor>)
             [0..<num])"

subsection \<open>Indexing an array with an array of integers\<close>

text \<open>
  \<open>a[idx]\<close> with an integer array \<open>idx\<close>: every index must lie in \<open>[-n, n)\<close>, a
  negative one counts from the end, anything else raises \<open>IndexError\<close>.
\<close>

definition take_idx :: "'a list \<Rightarrow> int list \<Rightarrow> pyerr + 'a list" where
  "take_idx a ks =
     (let n = int (length a)
      in if \<forall>k \<in> set ks. - n \<le> k \<and> k < n
         then Inr (map (\<lambda>k. a ! nat (if k < 0 then k + n else k)) ks)
         else Inl IndexError)"

subsection \<open>\<open>argsort\<close>\<close>

text \<open>
  The positions of \<open>a\<close> in ascending order of the entries.  Equal entries are kept in
  their original order here; numpy's default sort does not promise that, but the spline
  constructor rejects abscissas with equal entries, so the order of ties never reaches
  a result.
\<close>

definition argsort :: "real list \<Rightarrow> nat list" where
  "argsort a = sort_key (\<lambda>i. a ! i) [0..<length a]"

section \<open>\<open>interpolate_in\<close>\<close>

definition margin :: nat where
  "margin = 5"

text \<open>The arm of the \<open>if\<close>/\<open>elif\<close>/\<open>elif\<close> chain that runs, in the order of the source.\<close>

datatype branch = Interior | Start | End

definition window_branch :: "nat \<Rightarrow> nat \<Rightarrow> branch option" where
  "window_branch n idx =
     (if int idx \<ge> int margin \<and> int idx \<le> int n - int margin then Some Interior
      else if int idx < int margin then Some Start
      else if int idx > int n - int margin then Some End
      else None)"

text \<open>
  \<open>idx_peq\<close>: the positions of the local window, for a source array of length \<open>n\<close> and
  nearest position \<open>idx\<close>.  Were no arm to run, the name would be unbound at its first
  use.
\<close>

definition idx_peq :: "nat \<Rightarrow> nat \<Rightarrow> pyerr + int list" where
  "idx_peq n idx =
     (case window_branch n idx of
        Some Interior \<Rightarrow>
          Inr (linspace_int (int idx - int margin) (int idx + int margin) (2 * margin + 1))
      | Some Start \<Rightarrow>
          Inr (linspace_int 0 (int idx + int margin) (idx + margin))
      | Some End \<Rightarrow>
          Inr (linspace_int (int idx - int margin) (int n - 1)
                 (nat (int n - int idx + int margin)))
      | None \<Rightarrow> Inl UnboundLocalError)"

text \<open>
  \<open>CubicSpline\<close> comes from scipy and is a parameter \<open>cs\<close> of the model: given the
  abscissas and the ordinates it either raises or returns the fitted curve.
\<close>

type_synonym spline = "real list \<Rightarrow> real list \<Rightarrow> pyerr + (real \<Rightarrow> real)"

text \<open>Lines 161 to 168: the nearest position and the two windowed sub-arrays.\<close>

definition local_window ::
  "real list \<Rightarrow> real list \<Rightarrow> real \<Rightarrow> pyerr + (nat \<times> real list \<times> real list)" where
  "local_window par_prim par_seg valor =
     (case argmin (map (\<lambda>x. \<bar>valor - x\<bar>) par_prim) of
        Inl e \<Rightarrow> Inl e
      | Inr idx \<Rightarrow>
         (case idx_peq (length par_prim) idx of
            Inl e \<Rightarrow> Inl e
          | Inr ks \<Rightarrow>
             (case take_idx par_prim ks of
                Inl e \<Rightarrow> Inl e
              | Inr prim \<Rightarrow>
                 (case take_idx par_seg ks of
                    Inl e \<Rightarrow> Inl e
                  | Inr seg \<Rightarrow> Inr (idx, prim, seg)))))"

definition interpolate_in ::
  "spline \<Rightarrow> real list \<Rightarrow> real list \<Rightarrow> real \<Rightarrow> pyerr + (real \<times> nat)" where
  "interpolate_in cs par_prim par_seg valor =
     (case local_window par_prim par_seg valor of
        Inl e \<Rightarrow> Inl e
      | Inr (idx, prim, seg) \<Rightarrow>
         (let srt = argsort prim
          in case cs (map (\<lambda>i. prim ! i) srt) (map (\<lambda>i. seg ! i) srt) of
               Inl e \<Rightarrow> Inl e
             | Inr spl \<Rightarrow> Inr (spl valor, idx)))"


section \<open>The spline constructor of the library\<close>

text \<open>
  \<open>scipy.interpolate.CubicSpline(x, y, bc_type='not-a-knot')\<close>, for one-dimensional
  data and over the reals.  The constructor checks its input, finds the first derivatives
  \<open>s\<close> of the curve at the knots from a tridiagonal system whose first and last rows
  depend on the boundary condition, and stores the curve as one cubic per interval.  The
  program passes no boundary condition, so it gets the default, \<open>not-a-knot\<close>.  The
  conditions on a derivative are part of the model as well: \<open>(1, v)\<close> is what the
  constructor itself substitutes when there are two points, and \<open>(2, 0.0)\<close> is the
  library's \<open>natural\<close>.  The periodic condition is left out.
\<close>

datatype bc = NotAKnot | Deriv1 real | Deriv2 real

text \<open>\<open>np.diff\<close>.\<close>

fun diff :: "real list \<Rightarrow> real list" where
  "diff (a # b # xs) = (b - a) # diff (b # xs)"
| "diff _ = []"

text \<open>
  A row of the tridiagonal system: the entry below the diagonal, the one on it, the
  one above it, and the right-hand side.
\<close>

type_synonym row = "real \<times> real \<times> real \<times> real"

text \<open>The rows for the inner knots \<open>1, \<dots>, n - 2\<close>.\<close>

definition inner_rows :: "real list \<Rightarrow> real list \<Rightarrow> row list" where
  "inner_rows dx slope =
     map (\<lambda>i. (dx ! i, 2 * (dx ! (i - 1) + dx ! i), dx ! (i - 1),
                3 * (dx ! i * slope ! (i - 1) + dx ! (i - 1) * slope ! i)))
       [1..<length dx]"

definition first_row :: "bc \<Rightarrow> real list \<Rightarrow> real list \<Rightarrow> real list \<Rightarrow> real list \<Rightarrow> row" where
  "first_row b x y dx slope =
     (case b of
        NotAKnot \<Rightarrow>
          (let d = x ! 2 - x ! 0
           in (0, dx ! 1, d,
               ((dx ! 0 + 2 * d) * dx ! 1 * slope ! 0 + (dx ! 0)\<^sup>2 * slope ! 1) / d))
      | Deriv1 v \<Rightarrow> (0, 1, 0, v)
      | Deriv2 v \<Rightarrow>
          (0, 2 * dx ! 0, dx ! 0, - 0.5 * v * (dx ! 0)\<^sup>2 + 3 * (y ! 1 - y ! 0)))"

definition last_row :: "bc \<Rightarrow> real list \<Rightarrow> real list \<Rightarrow> real list \<Rightarrow> real list \<Rightarrow> row" where
  "last_row b x y dx slope =
     (let n = length x
      in case b of
           NotAKnot \<Rightarrow>
             (let d = x ! (n - 1) - x ! (n - 3)
              in (d, dx ! (n - 3), 0,
                  ((dx ! (n - 2))\<^sup>2 * slope ! (n - 3)
                   + (2 * d + dx ! (n - 2)) * dx ! (n - 3) * slope ! (n - 2)) / d))
         | Deriv1 v \<Rightarrow> (0, 1, 0, v)
         | Deriv2 v \<Rightarrow>
             (dx ! (n - 2), 2 * dx ! (n - 2), 0,
              0.5 * v * (dx ! (n - 2))\<^sup>2 + 3 * (y ! (n - 1) - y ! (n - 2))))"

text \<open>
  \<open>solve_banded\<close> returns the solution of the system.  Here it is found by elimination
  from the first row down and substitution back up; over the reals the solution of a
  regular system does not depend on the order of elimination.  \<open>eliminate\<close> carries the
  transformed upper entry and right-hand side of the previous row.
\<close>

fun eliminate :: "row list \<Rightarrow> real \<Rightarrow> real \<Rightarrow> (real \<times> real) list" where
  "eliminate [] c' d' = []"
| "eliminate ((l, d, u, b) # rows) c' d' =
     (let m = d - l * c'; c = u / m; e = (b - l * d') / m
      in (c, e) # eliminate rows c e)"

fun substitute :: "(real \<times> real) list \<Rightarrow> real list" where
  "substitute [] = []"
| "substitute [(c, e)] = [e]"
| "substitute ((c, e) # r # rs) =
     (let s = substitute (r # rs) in (e - c * hd s) # s)"

definition solve_banded :: "row list \<Rightarrow> real list" where
  "solve_banded rows = substitute (eliminate rows 0 0)"

text \<open>
  The derivatives at the knots.  With two points a \<open>not-a-knot\<close> end becomes the
  condition that the first derivative is the slope; with three points and \<open>not-a-knot\<close>
  at both ends the curve is the parabola through them.
\<close>

definition knot_derivatives :: "bc \<Rightarrow> bc \<Rightarrow> real list \<Rightarrow> real list \<Rightarrow> real list" where
  "knot_derivatives b0 b1 x y =
     (let n = length x; dx = diff x; slope = map2 (/) (diff y) dx;
          b0' = (if n = 2 \<and> b0 = NotAKnot then Deriv1 (slope ! 0) else b0);
          b1' = (if n = 2 \<and> b1 = NotAKnot then Deriv1 (slope ! 0) else b1)
      in if n = 3 \<and> b0' = NotAKnot \<and> b1' = NotAKnot then
           solve_banded
             [(0, 1, 1, 2 * slope ! 0),
              (dx ! 1, 2 * (dx ! 0 + dx ! 1), dx ! 0,
               3 * (dx ! 0 * slope ! 1 + dx ! 1 * slope ! 0)),
              (1, 1, 0, 2 * slope ! 1)]
         else
           solve_banded
             (first_row b0' x y dx slope # inner_rows dx slope @ [last_row b1' x y dx slope]))"

text \<open>
  The interval used for the argument \<open>v\<close>: the one that holds it, the first one to the
  left of the knots, the last one at the last knot and to the right of it.
\<close>

definition find_interval :: "real list \<Rightarrow> real \<Rightarrow> nat" where
  "find_interval x v = min (length (takeWhile (\<lambda>k. k \<le> v) (tl x))) (length x - 2)"

text \<open>The cubic of interval \<open>i\<close>, in powers of the distance from its left knot.\<close>

definition piece :: "real list \<Rightarrow> real list \<Rightarrow> real list \<Rightarrow> nat \<Rightarrow> real \<times> real \<times> real \<times> real" where
  "piece x y s i =
     (let dx = x ! (i + 1) - x ! i; slope = (y ! (i + 1) - y ! i) / dx;
          t = (s ! i + s ! (i + 1) - 2 * slope) / dx
      in (t / dx, (slope - s ! i) / dx - t, s ! i, y ! i))"

definition eval_piece :: "real \<times> real \<times> real \<times> real \<Rightarrow> real \<Rightarrow> real" where
  "eval_piece c t = (case c of (c0, c1, c2, c3) \<Rightarrow> c0 * t ^ 3 + c1 * t\<^sup>2 + c2 * t + c3)"

definition spline_curve :: "real list \<Rightarrow> real list \<Rightarrow> real list \<Rightarrow> real \<Rightarrow> real" where
  "spline_curve x y s v = (let i = find_interval x v in eval_piece (piece x y s i) (v - x ! i))"

text \<open>
  The constructor: at least two points, as many ordinates as abscissas, abscissas
  strictly increasing, or else \<open>ValueError\<close>.
\<close>

definition CubicSpline_bc :: "bc \<Rightarrow> bc \<Rightarrow> spline" where
  "CubicSpline_bc b0 b1 x y =
     (if length x < 2 \<or> length y \<noteq> length x \<or> (\<exists>d \<in> set (diff x). d \<le> 0)
      then Inl ValueError
      else Inr (spline_curve x y (knot_derivatives b0 b1 x y)))"

definition CubicSpline :: spline where
  "CubicSpline = CubicSpline_bc NotAKnot NotAKnot"

text \<open>
  The curve that the specification names: the library's \<open>bc_type='natural'\<close>, second
  derivative zero at the first and at the last knot.  The program does not ask for it;
  it is defined here to be compared with what the program computes.
\<close>

definition natural_CubicSpline :: spline where
  "natural_CubicSpline = CubicSpline_bc (Deriv2 0) (Deriv2 0)"

subsection \<open>What makes a curve a cubic spline\<close>

text \<open>
  The first, second and third derivative of a piece.  They serve to say what the
  boundary conditions mean: a curve through the points whose first and second
  derivatives agree where two pieces meet, and which, at each end, either has second
  derivative zero (natural) or has the same third derivative on the first two and on
  the last two pieces (not-a-knot: the second and the second-to-last knot are no knots).
\<close>

definition piece_d1 :: "real \<times> real \<times> real \<times> real \<Rightarrow> real \<Rightarrow> real" where
  "piece_d1 c t = (case c of (c0, c1, c2, c3) \<Rightarrow> 3 * c0 * t\<^sup>2 + 2 * c1 * t + c2)"

definition piece_d2 :: "real \<times> real \<times> real \<times> real \<Rightarrow> real \<Rightarrow> real" where
  "piece_d2 c t = (case c of (c0, c1, c2, c3) \<Rightarrow> 6 * c0 * t + 2 * c1)"

definition piece_d3 :: "real \<times> real \<times> real \<times> real \<Rightarrow> real" where
  "piece_d3 c = (case c of (c0, c1, c2, c3) \<Rightarrow> 6 * c0)"

definition passes_through :: "real list \<Rightarrow> real list \<Rightarrow> real list \<Rightarrow> bool" where
  "passes_through x y s \<longleftrightarrow> (\<forall>k<length x. spline_curve x y s (x ! k) = y ! k)"

definition smooth_at_knots :: "real list \<Rightarrow> real list \<Rightarrow> real list \<Rightarrow> bool" where
  "smooth_at_knots x y s \<longleftrightarrow>
     (\<forall>k. Suc (Suc k) < length x \<longrightarrow>
        piece_d1 (piece x y s k) (x ! Suc k - x ! k) = piece_d1 (piece x y s (Suc k)) 0
      \<and> piece_d2 (piece x y s k) (x ! Suc k - x ! k) = piece_d2 (piece x y s (Suc k)) 0)"

definition natural_ends :: "real list \<Rightarrow> real list \<Rightarrow> real list \<Rightarrow> bool" where
  "natural_ends x y s \<longleftrightarrow>
     piece_d2 (piece x y s 0) 0 = 0
   \<and> piece_d2 (piece x y s (length x - 2)) (x ! (length x - 1) - x ! (length x - 2)) = 0"

definition not_a_knot_ends :: "real list \<Rightarrow> real list \<Rightarrow> real list \<Rightarrow> bool" where
  "not_a_knot_ends x y s \<longleftrightarrow>
     piece_d3 (piece x y s 0) = piece_d3 (piece x y s 1)
   \<and> piece_d3 (piece x y s (length x - 3)) = piece_d3 (piece x y s (length x - 2))"

subsection \<open>The linear system of the derivatives\<close>

text \<open>
  The rows that \<open>knot_derivatives\<close> hands to \<open>solve_banded\<close> in the general case, and
  three notions for the proof that the elimination solves them: every pivot is not
  zero, a list of values satisfies every row (\<open>sp\<close> stands for the value before the
  first one), and a row is dominated by its diagonal.
\<close>

definition system :: "bc \<Rightarrow> bc \<Rightarrow> real list \<Rightarrow> real list \<Rightarrow> row list" where
  "system b0 b1 x y =
     (let dx = diff x; slope = map2 (/) (diff y) dx
      in first_row b0 x y dx slope # inner_rows dx slope @ [last_row b1 x y dx slope])"

fun pivots_ok :: "row list \<Rightarrow> real \<Rightarrow> bool" where
  "pivots_ok [] c' = True"
| "pivots_ok ((l, d, u, b) # rows) c' = (d - l * c' \<noteq> 0 \<and> pivots_ok rows (u / (d - l * c')))"

fun solves :: "row list \<Rightarrow> real \<Rightarrow> real list \<Rightarrow> bool" where
  "solves [] sp s = (s = [])"
| "solves ((l, d, u, b) # rows) sp [] = False"
| "solves ((l, d, u, b) # rows) sp (x # xs) =
     (l * sp + d * x + u * (case xs of [] \<Rightarrow> 0 | z # _ \<Rightarrow> z) = b \<and> solves rows x xs)"

definition dominant :: "row \<Rightarrow> bool" where
  "dominant r = (case r of (l, d, u, b) \<Rightarrow> 0 \<le> l \<and> 0 \<le> u \<and> l + u < d)"

section \<open>The main block\<close>

subsection \<open>Command line and output\<close>

text \<open>
  The namespace returned by \<open>argparse\<close>, with its defaults: the three optional values
  are \<open>None\<close> when the key is absent, \<open>Ebv\<close> is 0, the flags are \<open>False\<close>.
\<close>

record args =
  given :: "string option"
  val :: "string option"
  atdist :: "real option"
  mas :: bool
  Ebv :: real
  binary :: bool

text \<open>
  What the program prints, one value per \<open>print\<close> call, carrying the numbers before
  formatting.  The fixed messages are named rather than spelled out.
\<close>

datatype message = NoParameters | NoValues | ApparentGiven | Note

datatype out =
    Msg message
  | DistanceIs "real option"
  | StarHeader nat string real
  | Quantity string real
  | Apparent real real real
  | SpType "string list"
  | BinaryComponents real real
  | BinaryTotal real real real

text \<open>A run either completes or stops with an exception; what was printed until then stays printed.\<close>

type_synonym 'a run = "(pyerr \<times> out list) + 'a"

text \<open>
  The exit status of the interpreter: the argument of \<open>sys.exit\<close>, 1 after an uncaught
  exception, 0 after a normal end.  Where the model stopped at a non-real float the
  program goes on, and the model says nothing.
\<close>

fun exit_status :: "'a run \<Rightarrow> int option" where
  "exit_status (Inr _) = Some 0"
| "exit_status (Inl (SystemExit n, _)) = Some n"
| "exit_status (Inl (FloatNotReal, _)) = None"
| "exit_status (Inl (_, _)) = Some 1"

subsection \<open>Strings and slices\<close>

text \<open>\<open>s.split(',')\<close>.\<close>

fun split_comma :: "string \<Rightarrow> string list" where
  "split_comma [] = [[]]"
| "split_comma (c # cs) =
     (if c = CHR '','' then [] # split_comma cs
      else (case split_comma cs of [] \<Rightarrow> [[c]] | w # ws \<Rightarrow> (c # w) # ws))"

text \<open>
  \<open>np.asarray(strs, dtype=float)\<close>: every string is converted by the float parser
  \<open>fl\<close> (a parameter: \<open>None\<close> where Python rejects the string), and one failure
  raises \<open>ValueError\<close>.
\<close>

definition parse_values :: "(string \<Rightarrow> real option) \<Rightarrow> string list \<Rightarrow> pyerr + real list" where
  "parse_values fl strs =
     (case those (map fl strs) of None \<Rightarrow> Inl ValueError | Some vs \<Rightarrow> Inr vs)"

text \<open>
  The slice \<open>xs[lo:hi]\<close> of a Python list: a negative bound counts from the end, and
  both bounds are then clamped to \<open>[0, len(xs)]\<close>.
\<close>

definition py_slice :: "'a list \<Rightarrow> int \<Rightarrow> int \<Rightarrow> 'a list" where
  "py_slice xs lo hi =
     (let n = int (length xs);
          s = (if lo < 0 then max (lo + n) 0 else min lo n);
          e = (if hi < 0 then max (hi + n) 0 else min hi n)
      in take (nat (e - s)) (drop (nat s) xs))"

text \<open>Line 233: the labels printed after each star.\<close>

definition sptype_bracket :: "nat \<Rightarrow> string list" where
  "sptype_bracket idx = py_slice sptype (int idx - 1) (int idx + 1)"

text \<open>
  A float parser for plain decimal notation (an optional minus sign, digits, an optional
  point and digits).  It agrees with Python's \<open>float\<close> on such strings and is used to
  run the model on concrete command lines; \<open>main\<close> itself takes the parser as a
  parameter.
\<close>

definition digit_val :: "char \<Rightarrow> nat option" where
  "digit_val c = (if 48 \<le> (of_char c :: nat) \<and> (of_char c :: nat) \<le> 57
                  then Some (of_char c - 48) else None)"

fun digits_val :: "string \<Rightarrow> nat \<Rightarrow> nat option" where
  "digits_val [] acc = Some acc"
| "digits_val (c # cs) acc =
     (case digit_val c of None \<Rightarrow> None | Some k \<Rightarrow> digits_val cs (10 * acc + k))"

definition unsigned_decimal :: "string \<Rightarrow> real option" where
  "unsigned_decimal s =
     (let ip = takeWhile (\<lambda>c. c \<noteq> CHR ''.'') s; fp = drop (Suc (length ip)) s
      in if ip = [] \<and> fp = [] then None
         else (case (digits_val ip 0, digits_val fp 0) of
                 (Some a, Some b) \<Rightarrow> Some (real a + real b / 10 ^ length fp)
               | _ \<Rightarrow> None))"

definition decimal :: "string \<Rightarrow> real option" where
  "decimal s =
     (if s \<noteq> [] \<and> hd s = CHR ''-'' then map_option uminus (unsigned_decimal (tl s))
      else unsigned_decimal s)"

subsection \<open>The loops\<close>

text \<open>
  The variables that the loops assign.  \<open>newval\<close> and \<open>idx\<close> are unbound until the
  first interpolation; \<open>mbin\<close> and \<open>Lbin\<close> are \<open>np.zeros(2)\<close> (they exist in binary
  mode only, and are read in binary mode only).
\<close>

record loop_state =
  newval :: "real option"
  idx :: "nat option"
  mbin :: "real list"
  Lbin :: "real list"
  outp :: "out list"

text \<open>What the loops read and do not change.\<close>

record env =
  e_args :: args
  e_given :: string
  e_values :: "real list"
  e_nval :: nat
  e_d :: "real option"
  e_Av :: real

definition emit :: "out \<Rightarrow> loop_state \<Rightarrow> loop_state" where
  "emit x st = st\<lparr>outp := outp st @ [x]\<rparr>"

text \<open>
  \<open>interpolate_in(convers[args.given], col, v)\<close>, with the \<open>KeyError\<close> of a name that
  is not a column.
\<close>

definition interpolate_given ::
  "spline \<Rightarrow> string \<Rightarrow> real list \<Rightarrow> real \<Rightarrow> pyerr + (real \<times> nat)" where
  "interpolate_given cs g col v =
     (case map_of convers g of
        None \<Rightarrow> Inl KeyError
      | Some src \<Rightarrow> interpolate_in cs src col v)"

text \<open>Lines 220 to 222.\<close>

definition key_interpolate ::
  "spline \<Rightarrow> env \<Rightarrow> real \<Rightarrow> string \<times> real list \<Rightarrow> loop_state \<Rightarrow> loop_state run" where
  "key_interpolate cs en v kv st =
     (if fst kv \<noteq> e_given en then
        (case interpolate_given cs (e_given en) (snd kv) v of
           Inl e \<Rightarrow> Inl (e, outp st)
         | Inr (nv, ix) \<Rightarrow>
             Inr (emit (Quantity (fst kv) nv) (st\<lparr>newval := Some nv, idx := Some ix\<rparr>)))
      else Inr st)"

text \<open>
  Lines 223 to 232.  \<open>d\<close> is a number here, since \<open>atdist\<close> is; its logarithm is real
  only if it is positive.
\<close>

definition key_apparent ::
  "spline \<Rightarrow> env \<Rightarrow> nat \<Rightarrow> real \<Rightarrow> string \<times> real list \<Rightarrow> loop_state \<Rightarrow> loop_state run" where
  "key_apparent cs en i v kv st =
     (if atdist (e_args en) \<noteq> None \<and> (e_given en = ''Mv'' \<or> fst kv = ''Mv'') then
        (case (if e_given en = ''Mv'' then Some v else newval st) of
           None \<Rightarrow> Inl (NameError, outp st)
         | Some Mv_abs \<Rightarrow>
            (case e_d en of
               None \<Rightarrow> Inl (TypeError, outp st)
             | Some d \<Rightarrow>
                if d \<le> 0 then Inl (FloatNotReal, outp st)
                else
                  (let mv = Mv_abs - 5 + 5 * log 10 d + e_Av en;
                       st1 = emit (Apparent mv d (e_Av en)) st
                   in if binary (e_args en) \<and> e_nval en \<ge> 2 \<and> i \<le> 1 then
                        (case interpolate_given cs (e_given en) logL v of
                           Inl e \<Rightarrow> Inl (e, outp st1)
                         | Inr (l, _) \<Rightarrow>
                             Inr (st1\<lparr>mbin := (mbin st1)[i := mv],
                                      Lbin := (Lbin st1)[i := l]\<rparr>))
                      else Inr st1)))
      else Inr st)"

text \<open>The inner loop over \<open>convers.items()\<close>.\<close>

fun keys_loop ::
  "spline \<Rightarrow> env \<Rightarrow> nat \<Rightarrow> real \<Rightarrow> (string \<times> real list) list \<Rightarrow> loop_state \<Rightarrow> loop_state run" where
  "keys_loop cs en i v [] st = Inr st"
| "keys_loop cs en i v (kv # kvs) st =
     (case key_interpolate cs en v kv st of
        Inl e \<Rightarrow> Inl e
      | Inr st1 \<Rightarrow>
         (case key_apparent cs en i v kv st1 of
            Inl e \<Rightarrow> Inl e
          | Inr st2 \<Rightarrow> keys_loop cs en i v kvs st2))"

text \<open>One turn of the outer loop, lines 218 to 233.\<close>

definition star_step :: "spline \<Rightarrow> env \<Rightarrow> nat \<Rightarrow> loop_state \<Rightarrow> loop_state run" where
  "star_step cs en i st =
     (let v = e_values en ! i
      in case keys_loop cs en i v convers (emit (StarHeader (i + 1) (e_given en) v) st) of
           Inl e \<Rightarrow> Inl e
         | Inr st1 \<Rightarrow>
            (case idx st1 of
               None \<Rightarrow> Inl (NameError, outp st1)
             | Some ix \<Rightarrow> Inr (emit (SpType (sptype_bracket ix)) st1)))"

fun stars_loop :: "spline \<Rightarrow> env \<Rightarrow> nat list \<Rightarrow> loop_state \<Rightarrow> loop_state run" where
  "stars_loop cs en [] st = Inr st"
| "stars_loop cs en (i # is) st =
     (case star_step cs en i st of
        Inl e \<Rightarrow> Inl e
      | Inr st1 \<Rightarrow> stars_loop cs en is st1)"

text \<open>
  Lines 235 to 240.  The magnitude of the pair is real only if the quotient is defined
  and positive; the second line cannot be formatted when \<open>d\<close> is \<open>None\<close>.
\<close>

definition Vbin :: "real list \<Rightarrow> real list \<Rightarrow> real" where
  "Vbin mb Lb = mb ! 1 - 2.5 * log 10 ((Lb ! 0 + Lb ! 1) / Lb ! 1)"

definition binary_report :: "env \<Rightarrow> loop_state \<Rightarrow> out list run" where
  "binary_report en st =
     (if binary (e_args en) \<and> e_nval en \<ge> 2 then
        (let st1 = emit (BinaryComponents (mbin st ! 0) (mbin st ! 1)) st
         in case e_d en of
              None \<Rightarrow> Inl (TypeError, outp st1)
            | Some d \<Rightarrow>
               if Lbin st ! 1 = 0 \<or> (Lbin st ! 0 + Lbin st ! 1) / Lbin st ! 1 \<le> 0
               then Inl (FloatNotReal, outp st1)
               else Inr (outp st1 @ [BinaryTotal (Vbin (mbin st) (Lbin st)) d (e_Av en),
                                     Msg Note]))
      else Inr (outp st @ [Msg Note]))"

subsection \<open>From the arguments to the loops\<close>

text \<open>Lines 194 to 199: the values and their number.\<close>

definition read_values :: "(string \<Rightarrow> real option) \<Rightarrow> string \<Rightarrow> pyerr + (real list \<times> nat)" where
  "read_values fl s =
     (if CHR '','' \<in> set s then
        (case parse_values fl (split_comma s) of
           Inl e \<Rightarrow> Inl e
         | Inr vs \<Rightarrow> Inr (vs, length vs))
      else
        (case parse_values fl [s] of
           Inl e \<Rightarrow> Inl e
         | Inr vs \<Rightarrow> Inr (vs, 1)))"

text \<open>Lines 201 to 204; \<open>1000. / 0.0\<close> is a division of Python floats and raises.\<close>

definition distance :: "args \<Rightarrow> pyerr + real option" where
  "distance a =
     (case atdist a of
        Some x \<Rightarrow> if mas a then (if x = 0 then Inl ZeroDivisionError else Inr (Some (1000 / x)))
                  else Inr (Some x)
      | None \<Rightarrow> Inr None)"

text \<open>Lines 211 to 215: an apparent magnitude is turned into an absolute one.\<close>

definition resolve_given ::
  "string \<Rightarrow> real list \<Rightarrow> real option \<Rightarrow> out list \<Rightarrow> (string \<times> real list \<times> out list) run" where
  "resolve_given g vs d os =
     (if g = ''V'' then
        (let os1 = os @ [Msg ApparentGiven, DistanceIs d]
         in case d of
              None \<Rightarrow> Inl (TypeError, os1)
            | Some x \<Rightarrow>
               if x \<le> 0 then Inl (FloatNotReal, os1)
               else Inr (''Mv'', map (\<lambda>v. v + 5 - 5 * log 10 x) vs, os1))
      else Inr (g, vs, os))"

definition main :: "spline \<Rightarrow> (string \<Rightarrow> real option) \<Rightarrow> args \<Rightarrow> out list run" where
  "main cs fl a =
     (case given a of
        None \<Rightarrow> Inl (SystemExit 1, [Msg NoParameters])
      | Some g0 \<Rightarrow>
         (let os = (if val a = None then [Msg NoValues] else [])
          in case val a of
               None \<Rightarrow> Inl (AttributeError, os)
             | Some s \<Rightarrow>
                (case read_values fl s of
                   Inl e \<Rightarrow> Inl (e, os)
                 | Inr (vs0, nval) \<Rightarrow>
                    (case distance a of
                       Inl e \<Rightarrow> Inl (e, os)
                     | Inr d \<Rightarrow>
                        (case resolve_given g0 vs0 d os of
                           Inl e \<Rightarrow> Inl e
                         | Inr (g, vs, os1) \<Rightarrow>
                            (let en = \<lparr>e_args = a, e_given = g, e_values = vs,
                                       e_nval = nval, e_d = d, e_Av = 3.2 * Ebv a\<rparr>;
                                 st0 = \<lparr>newval = None, idx = None, mbin = [0, 0],
                                        Lbin = [0, 0], outp = os1\<rparr>
                             in case stars_loop cs en [0..<nval] st0 of
                                  Inl e \<Rightarrow> Inl e
                                | Inr st \<Rightarrow> binary_report en st))))))"


section \<open>The table\<close>

lemmas table_defs =
  sptype_def Teff_def logTeff_def logL_def Mbol_def Rsun_def Mv_def BV_def Msun_def

lemmas window_defs =
  local_window_def argmin_def idx_peq_def window_branch_def margin_def linspace_int_def
  take_idx_def upt_rec

lemmas spline_defs =
  CubicSpline_def CubicSpline_bc_def spline_curve_def knot_derivatives_def first_row_def
  last_row_def inner_rows_def solve_banded_def find_interval_def piece_def eval_piece_def

text \<open>
  C2.  The nine parallel lists (the labels and the eight columns of \<open>convers\<close>) have the
  same length; that length is 86, one row for each subtype from O3V to M9V.
\<close>

theorem table_lengths:
  "length sptype = 86 \<and> length Teff = 86 \<and> length logTeff = 86 \<and> length logL = 86
   \<and> length Mbol = 86 \<and> length Rsun = 86 \<and> length Mv = 86 \<and> length BV = 86
   \<and> length Msun = 86"
  by (simp add: table_defs)

text \<open>C2 as stated, with 82 rows, does not hold of the lists.\<close>

theorem table_lengths_not_82:
  "\<not> (length sptype = 82 \<and> length Teff = 82 \<and> length logTeff = 82 \<and> length logL = 82
       \<and> length Mbol = 82 \<and> length Rsun = 82 \<and> length Mv = 82 \<and> length BV = 82
       \<and> length Msun = 82)"
  by (simp add: sptype_def)

subsection \<open>The two ends of each column\<close>

text \<open>
  For each column: its first and last entry, the position nearest to each of them, and
  that the source values of the windows there are pairwise different.  The last two
  entries of \<open>Rsun\<close> and of \<open>Msun\<close> are equal, so the position nearest to their last
  entry is 84, the first of the two.
\<close>

lemma Teff_ends: "hd Teff = 44900" "last Teff = 2380" "length Teff = 86"
  by (simp_all add: Teff_def)

lemma Teff_first_nearest: "argmin (map (\<lambda>x. \<bar>44900 - x\<bar>) Teff) = Inr 0"
  by (simp add: Teff_def argmin_def)

lemma Teff_last_nearest: "argmin (map (\<lambda>x. \<bar>2380 - x\<bar>) Teff) = Inr 85"
  by (simp add: Teff_def argmin_def)

lemma Teff_first_distinct: "distinct (map (\<lambda>k. Teff ! k) [0, 1, 2, 3, 5])"
  by (simp add: Teff_def)

lemma Teff_last_distinct: "distinct (map (\<lambda>k. Teff ! k) [80, 81, 82, 83, 84, 85])"
  by (simp add: Teff_def)

lemma logTeff_ends: "hd logTeff = 4.652" "last logTeff = 3.377" "length logTeff = 86"
  by (simp_all add: logTeff_def)

lemma logTeff_first_nearest: "argmin (map (\<lambda>x. \<bar>4.652 - x\<bar>) logTeff) = Inr 0"
  by (simp add: logTeff_def argmin_def)

lemma logTeff_last_nearest: "argmin (map (\<lambda>x. \<bar>3.377 - x\<bar>) logTeff) = Inr 85"
  by (simp add: logTeff_def argmin_def)

lemma logTeff_first_distinct: "distinct (map (\<lambda>k. logTeff ! k) [0, 1, 2, 3, 5])"
  by (simp add: logTeff_def)

lemma logTeff_last_distinct: "distinct (map (\<lambda>k. logTeff ! k) [80, 81, 82, 83, 84, 85])"
  by (simp add: logTeff_def)

lemma logL_ends: "hd logL = 5.82" "last logL = - 3.52" "length logL = 86"
  by (simp_all add: logL_def)

lemma logL_first_nearest: "argmin (map (\<lambda>x. \<bar>5.82 - x\<bar>) logL) = Inr 0"
  by (simp add: logL_def argmin_def)

lemma logL_last_nearest: "argmin (map (\<lambda>x. \<bar>- 3.52 - x\<bar>) logL) = Inr 85"
  by (simp add: logL_def argmin_def)

lemma logL_first_distinct: "distinct (map (\<lambda>k. logL ! k) [0, 1, 2, 3, 5])"
  by (simp add: logL_def)

lemma logL_last_distinct: "distinct (map (\<lambda>k. logL ! k) [80, 81, 82, 83, 84, 85])"
  by (simp add: logL_def)

lemma Mbol_ends: "hd Mbol = - 9.81" "last Mbol = 13.54" "length Mbol = 86"
  by (simp_all add: Mbol_def)

lemma Mbol_first_nearest: "argmin (map (\<lambda>x. \<bar>- 9.81 - x\<bar>) Mbol) = Inr 0"
  by (simp add: Mbol_def argmin_def)

lemma Mbol_last_nearest: "argmin (map (\<lambda>x. \<bar>13.54 - x\<bar>) Mbol) = Inr 85"
  by (simp add: Mbol_def argmin_def)

lemma Mbol_first_distinct: "distinct (map (\<lambda>k. Mbol ! k) [0, 1, 2, 3, 5])"
  by (simp add: Mbol_def)

lemma Mbol_last_distinct: "distinct (map (\<lambda>k. Mbol ! k) [80, 81, 82, 83, 84, 85])"
  by (simp add: Mbol_def)

lemma Rsun_ends: "hd Rsun = 13.43" "last Rsun = 0.10" "length Rsun = 86"
  by (simp_all add: Rsun_def)

lemma Rsun_first_nearest: "argmin (map (\<lambda>x. \<bar>13.43 - x\<bar>) Rsun) = Inr 0"
  by (simp add: Rsun_def argmin_def)

lemma Rsun_last_nearest: "argmin (map (\<lambda>x. \<bar>0.10 - x\<bar>) Rsun) = Inr 84"
  by (simp add: Rsun_def argmin_def)

lemma Rsun_first_distinct: "distinct (map (\<lambda>k. Rsun ! k) [0, 1, 2, 3, 5])"
  by (simp add: Rsun_def)

lemma Mv_ends: "hd Mv = - 5.80" "last Mv = 19.40" "length Mv = 86"
  by (simp_all add: Mv_def)

lemma Mv_first_nearest: "argmin (map (\<lambda>x. \<bar>- 5.80 - x\<bar>) Mv) = Inr 0"
  by (simp add: Mv_def argmin_def)

lemma Mv_last_nearest: "argmin (map (\<lambda>x. \<bar>19.40 - x\<bar>) Mv) = Inr 85"
  by (simp add: Mv_def argmin_def)

lemma Mv_first_distinct: "distinct (map (\<lambda>k. Mv ! k) [0, 1, 2, 3, 5])"
  by (simp add: Mv_def)

lemma Mv_last_distinct: "distinct (map (\<lambda>k. Mv ! k) [80, 81, 82, 83, 84, 85])"
  by (simp add: Mv_def)

lemma BV_ends: "hd BV = - 0.330" "last BV = 2.170" "length BV = 86"
  by (simp_all add: BV_def)

lemma BV_first_nearest: "argmin (map (\<lambda>x. \<bar>- 0.330 - x\<bar>) BV) = Inr 0"
  by (simp add: BV_def argmin_def)

lemma BV_last_nearest: "argmin (map (\<lambda>x. \<bar>2.170 - x\<bar>) BV) = Inr 85"
  by (simp add: BV_def argmin_def)

lemma BV_first_distinct: "distinct (map (\<lambda>k. BV ! k) [0, 1, 2, 3, 5])"
  by (simp add: BV_def)

lemma BV_last_distinct: "distinct (map (\<lambda>k. BV ! k) [80, 81, 82, 83, 84, 85])"
  by (simp add: BV_def)

lemma Msun_ends: "hd Msun = 59.00" "last Msun = 0.08" "length Msun = 86"
  by (simp_all add: Msun_def)

lemma Msun_first_nearest: "argmin (map (\<lambda>x. \<bar>59.00 - x\<bar>) Msun) = Inr 0"
  by (simp add: Msun_def argmin_def)

lemma Msun_last_nearest: "argmin (map (\<lambda>x. \<bar>0.08 - x\<bar>) Msun) = Inr 84"
  by (simp add: Msun_def argmin_def)

lemma Msun_first_distinct: "distinct (map (\<lambda>k. Msun ! k) [0, 1, 2, 3, 5])"
  by (simp add: Msun_def)

lemma duplicate_last_rows: "Rsun ! 84 = Rsun ! 85" "Msun ! 84 = Msun ! 85"
  by (simp_all add: Rsun_def Msun_def)

lemma other_columns:
  "Teff \<noteq> Rsun" "Teff \<noteq> Msun" "logTeff \<noteq> Rsun" "logTeff \<noteq> Msun" "logL \<noteq> Rsun"
  "logL \<noteq> Msun" "Mbol \<noteq> Rsun" "Mbol \<noteq> Msun" "Mv \<noteq> Rsun" "Mv \<noteq> Msun" "BV \<noteq> Rsun"
  "BV \<noteq> Msun"
  using Teff_ends(1) logTeff_ends(1) logL_ends(1) Mbol_ends(1) Rsun_ends(1) Mv_ends(1)
    BV_ends(1) Msun_ends(1)
  by auto

lemma column_cases:
  assumes "col \<in> snd ` set convers"
  obtains "col = Teff" | "col = logTeff" | "col = logL" | "col = Mbol" | "col = Rsun"
    | "col = Mv" | "col = BV" | "col = Msun"
  using assms by (auto simp: convers_def)

section \<open>The nearest position\<close>

text \<open>
  The scan keeps the first least entry: \<open>pre\<close> is the part of the array already seen,
  \<open>b\<close> its least entry and \<open>bi\<close> the first position of \<open>b\<close>.
\<close>

lemma argmin_from_correct:
  assumes "bi < length pre" "b = pre ! bi" "\<forall>j<length pre. b \<le> pre ! j" "\<forall>j<bi. b < pre ! j"
    and "i = length pre"
  shows "argmin_from xs i b bi < length (pre @ xs)
     \<and> (\<forall>j<length (pre @ xs). (pre @ xs) ! argmin_from xs i b bi \<le> (pre @ xs) ! j)
     \<and> (\<forall>j<argmin_from xs i b bi. (pre @ xs) ! argmin_from xs i b bi < (pre @ xs) ! j)"
  using assms
proof (induction xs arbitrary: pre i b bi)
  case Nil
  then show ?case by simp
next
  case (Cons x xs)
  show ?case
  proof (cases "x < b")
    case True
    have "argmin_from xs (Suc i) x i < length ((pre @ [x]) @ xs)
       \<and> (\<forall>j<length ((pre @ [x]) @ xs).
             ((pre @ [x]) @ xs) ! argmin_from xs (Suc i) x i \<le> ((pre @ [x]) @ xs) ! j)
       \<and> (\<forall>j<argmin_from xs (Suc i) x i.
             ((pre @ [x]) @ xs) ! argmin_from xs (Suc i) x i < ((pre @ [x]) @ xs) ! j)"
    proof (rule Cons.IH)
      show "i < length (pre @ [x])" using Cons.prems by simp
      show "x = (pre @ [x]) ! i" using Cons.prems by simp
      show "\<forall>j<length (pre @ [x]). x \<le> (pre @ [x]) ! j"
        using Cons.prems True
        by (auto simp: nth_append less_Suc_eq intro: less_imp_le order.strict_trans2)
      show "\<forall>j<i. x < (pre @ [x]) ! j"
        using Cons.prems True by (auto simp: nth_append intro: order.strict_trans2)
      show "Suc i = length (pre @ [x])" using Cons.prems by simp
    qed
    with True show ?thesis by simp
  next
    case False
    have "argmin_from xs (Suc i) b bi < length ((pre @ [x]) @ xs)
       \<and> (\<forall>j<length ((pre @ [x]) @ xs).
             ((pre @ [x]) @ xs) ! argmin_from xs (Suc i) b bi \<le> ((pre @ [x]) @ xs) ! j)
       \<and> (\<forall>j<argmin_from xs (Suc i) b bi.
             ((pre @ [x]) @ xs) ! argmin_from xs (Suc i) b bi < ((pre @ [x]) @ xs) ! j)"
    proof (rule Cons.IH)
      show "bi < length (pre @ [x])" using Cons.prems by simp
      show "b = (pre @ [x]) ! bi" using Cons.prems by (simp add: nth_append)
      show "\<forall>j<length (pre @ [x]). b \<le> (pre @ [x]) ! j"
        using Cons.prems False by (auto simp: nth_append less_Suc_eq)
      show "\<forall>j<bi. b < (pre @ [x]) ! j"
        using Cons.prems by (auto simp: nth_append)
      show "Suc i = length (pre @ [x])" using Cons.prems by simp
    qed
    with False show ?thesis by simp
  qed
qed

lemma argmin_first_least:
  assumes "argmin a = Inr r"
  shows "r < length a" and "\<And>j. j < length a \<Longrightarrow> a ! r \<le> a ! j"
    and "\<And>j. j < r \<Longrightarrow> a ! r < a ! j"
proof (atomize (full), cases a)
  case Nil
  with assms
  show "r < length a \<and> (\<forall>j<length a. a ! r \<le> a ! j) \<and> (\<forall>j<r. a ! r < a ! j)"
    by (simp add: argmin_def)
next
  case (Cons x xs)
  with assms have r: "r = argmin_from xs 1 x 0" by (simp add: argmin_def)
  have "argmin_from xs 1 x 0 < length ([x] @ xs)
     \<and> (\<forall>j<length ([x] @ xs). ([x] @ xs) ! argmin_from xs 1 x 0 \<le> ([x] @ xs) ! j)
     \<and> (\<forall>j<argmin_from xs 1 x 0. ([x] @ xs) ! argmin_from xs 1 x 0 < ([x] @ xs) ! j)"
    by (rule argmin_from_correct) simp_all
  with r Cons
  show "r < length a \<and> (\<forall>j<length a. a ! r \<le> a ! j) \<and> (\<forall>j<r. a ! r < a ! j)"
    by simp
qed

lemma local_window_idx:
  "local_window p s v = Inr (i, prim, seg) \<Longrightarrow> argmin (map (\<lambda>x. \<bar>v - x\<bar>) p) = Inr i"
  by (auto simp: local_window_def split: sum.splits)

lemma interpolate_in_idx:
  "interpolate_in cs p s v = Inr (y, i) \<Longrightarrow> argmin (map (\<lambda>x. \<bar>v - x\<bar>) p) = Inr i"
  by (auto simp: interpolate_in_def Let_def split: sum.splits prod.splits
      dest: local_window_idx)

text \<open>
  Four runs that serve as concrete inputs below: a query at the last row of the table
  against two target columns, and a query between the first two rows, with the
  program's curve and with the natural one.
\<close>

lemma run_Teff_logL_2380: "interpolate_in CubicSpline Teff logL 2380 = Inr (- 3.52, 85)"
  by (simp add: interpolate_in_def window_defs Teff_def logL_def argsort_def spline_defs
      Let_def)

lemma run_Teff_Mv_2380: "interpolate_in CubicSpline Teff Mv 2380 = Inr (19.40, 85)"
  by (simp add: interpolate_in_def window_defs Teff_def Mv_def argsort_def spline_defs
      Let_def)

lemma window_Teff_logL_2380:
  "local_window Teff logL 2380 =
     Inr (85, [2740, 2680, 2630, 2570, 2420, 2380],
          [- 3.10, - 3.19, - 3.24, - 3.28, - 3.47, - 3.52])"
  by (simp add: window_defs Teff_def logL_def)

lemma window_Teff_logL_44000:
  "local_window Teff logL 44000 =
     Inr (0, [44900, 42900, 41400, 40500, 38300], [5.82, 5.65, 5.54, 5.44, 5.27])"
  by (simp add: window_defs Teff_def logL_def)

lemma argsort_first_window: "argsort [44900, 42900, 41400, 40500, 38300] = [4, 3, 2, 1, 0]"
  by (simp add: argsort_def upt_rec)

lemma run_default_44000:
  "interpolate_in CubicSpline Teff logL 44000 = Inr (31020592279 / 5417250000, 0)"
  by (simp add: interpolate_in_def window_Teff_logL_44000 argsort_first_window spline_defs
      Let_def)

lemma run_natural_44000:
  "interpolate_in natural_CubicSpline Teff logL 44000 = Inr (2887316519 / 503200000, 0)"
  by (simp add: interpolate_in_def window_Teff_logL_44000 argsort_first_window
      natural_CubicSpline_def spline_defs Let_def)

text \<open>
  C6.  Whenever \<open>interpolate_in\<close> returns, the position it returns is the one found
  by \<open>argmin\<close> on the absolute differences over the whole source array: a position of
  the source array at which the distance to the query is least, and the first such
  position.  This holds for every spline constructor, every source and target array and
  every query.
\<close>

theorem returned_index_is_first_nearest:
  assumes "interpolate_in cs p s v = Inr (y, i)"
  shows "argmin (map (\<lambda>x. \<bar>v - x\<bar>) p) = Inr i \<and> i < length p
     \<and> (\<forall>j<length p. \<bar>v - p ! i\<bar> \<le> \<bar>v - p ! j\<bar>)
     \<and> (\<forall>j<i. \<bar>v - p ! i\<bar> < \<bar>v - p ! j\<bar>)"
proof -
  have a: "argmin (map (\<lambda>x. \<bar>v - x\<bar>) p) = Inr i"
    using assms by (rule interpolate_in_idx)
  note m = argmin_first_least [OF a]
  from m(1) have i: "i < length p" by simp
  have "\<bar>v - p ! i\<bar> \<le> \<bar>v - p ! j\<bar>" if "j < length p" for j
  proof -
    from m(2) [of j] that
    have "map (\<lambda>x. \<bar>v - x\<bar>) p ! i \<le> map (\<lambda>x. \<bar>v - x\<bar>) p ! j" by simp
    with i that show ?thesis by simp
  qed
  moreover have "\<bar>v - p ! i\<bar> < \<bar>v - p ! j\<bar>" if "j < i" for j
  proof -
    from m(3) [of j] that
    have "map (\<lambda>x. \<bar>v - x\<bar>) p ! i < map (\<lambda>x. \<bar>v - x\<bar>) p ! j" by simp
    with i that show ?thesis by simp
  qed
  ultimately show ?thesis using a i by simp
qed

theorem returned_index_is_first_nearest_witness:
  "interpolate_in CubicSpline Teff logL 2380 = Inr (- 3.52, 85)
   \<and> argmin (map (\<lambda>x. \<bar>2380 - x\<bar>) Teff) = Inr 85 \<and> (85::nat) < length Teff"
  using returned_index_is_first_nearest [OF run_Teff_logL_2380] run_Teff_logL_2380
  by simp

text \<open>
  C9.  Two runs on the same source array and query that both return give the same
  position, whatever the two target arrays are.
\<close>

theorem returned_index_ignores_target:
  assumes "interpolate_in cs p s1 v = Inr (y1, i1)"
    and "interpolate_in cs p s2 v = Inr (y2, i2)"
  shows "i1 = i2"
  using interpolate_in_idx [OF assms(1)] interpolate_in_idx [OF assms(2)] by simp

theorem returned_index_ignores_target_witness:
  "interpolate_in CubicSpline Teff logL 2380 = Inr (- 3.52, 85)
   \<and> interpolate_in CubicSpline Teff Mv 2380 = Inr (19.40, 85) \<and> (85::nat) = 85"
  using returned_index_ignores_target [OF run_Teff_logL_2380 run_Teff_Mv_2380]
    run_Teff_logL_2380 run_Teff_Mv_2380
  by simp

section \<open>The window\<close>

lemma idx_peq_first: "idx_peq 86 0 = Inr [0, 1, 2, 3, 5]"
  by (simp add: idx_peq_def window_branch_def margin_def linspace_int_def upt_rec)

lemma idx_peq_last:
  "idx_peq 86 84 = Inr [79, 80, 81, 82, 83, 84, 85]"
  "idx_peq 86 85 = Inr [80, 81, 82, 83, 84, 85]"
  by (simp_all add: idx_peq_def window_branch_def margin_def linspace_int_def upt_rec)

lemma take_idx_length: "take_idx a ks = Inr r \<Longrightarrow> length r = length ks"
  by (auto simp: take_idx_def Let_def split: if_splits)

lemma local_window_lengths:
  assumes "local_window p s v = Inr (i, prim, seg)"
  shows "length seg = length prim"
  using assms by (auto simp: local_window_def split: sum.splits dest!: take_idx_length)

text \<open>
  When the positions of the window are inside both arrays, the window is made of the
  entries at these positions.
\<close>

lemma local_window_in_bounds:
  assumes "argmin (map (\<lambda>x. \<bar>v - x\<bar>) p) = Inr i" and "idx_peq (length p) i = Inr ks"
    and "\<forall>k \<in> set ks. 0 \<le> k \<and> k < int (length p)" and "length s = length p"
  shows "local_window p s v = Inr (i, map (\<lambda>k. p ! nat k) ks, map (\<lambda>k. s ! nat k) ks)"
proof -
  have "take_idx p ks = Inr (map (\<lambda>k. p ! nat k) ks)"
    using assms(3) by (auto simp: take_idx_def Let_def)
  moreover have "take_idx s ks = Inr (map (\<lambda>k. s ! nat k) ks)"
    using assms(3,4) by (auto simp: take_idx_def Let_def)
  ultimately show ?thesis using assms(1,2) by (simp add: local_window_def)
qed

lemma first_value_window:
  assumes "length col = 86" and "length seg = 86"
    and "argmin (map (\<lambda>x. \<bar>v - x\<bar>) col) = Inr 0"
  shows "local_window col seg v =
     Inr (0, map (\<lambda>k. col ! k) [0, 1, 2, 3, 5], map (\<lambda>k. seg ! k) [0, 1, 2, 3, 5])"
  using local_window_in_bounds [of v col 0 "[0, 1, 2, 3, 5]" seg] assms idx_peq_first
  by simp

lemma last_value_window_85:
  assumes "length col = 86" and "length seg = 86"
    and "argmin (map (\<lambda>x. \<bar>v - x\<bar>) col) = Inr 85"
  shows "local_window col seg v =
     Inr (85, map (\<lambda>k. col ! k) [80, 81, 82, 83, 84, 85],
              map (\<lambda>k. seg ! k) [80, 81, 82, 83, 84, 85])"
  using local_window_in_bounds [of v col 85 "[80, 81, 82, 83, 84, 85]" seg] assms idx_peq_last
  by simp

lemma last_value_window_84:
  assumes "length col = 86" and "length seg = 86"
    and "argmin (map (\<lambda>x. \<bar>v - x\<bar>) col) = Inr 84"
  shows "local_window col seg v =
     Inr (84, map (\<lambda>k. col ! k) [79, 80, 81, 82, 83, 84, 85],
              map (\<lambda>k. seg ! k) [79, 80, 81, 82, 83, 84, 85])"
  using local_window_in_bounds [of v col 84 "[79, 80, 81, 82, 83, 84, 85]" seg] assms idx_peq_last
  by simp

text \<open>
  C3 as stated fails: the query 2380 against \<open>Teff\<close> has its nearest position at the
  last row, 85, which is greater than \<open>len - margin = 81\<close>, and the third arm runs.
\<close>

theorem last_row_query_takes_third_branch:
  "local_window Teff logL 2380 =
     Inr (85, [2740, 2680, 2630, 2570, 2420, 2380],
          [- 3.10, - 3.19, - 3.24, - 3.28, - 3.47, - 3.52])
   \<and> window_branch (length Teff) 85 = Some End
   \<and> int 85 > int (length Teff) - int margin"
  by (simp add: window_defs Teff_def logL_def)

text \<open>
  C3, amended.  On a source array of 86 rows the nearest position is at most 85, and the
  third arm is the one that runs exactly when the nearest position is one of the last
  four rows, 82 to 85.
\<close>

theorem third_branch_on_86_rows:
  assumes "local_window p s v = Inr (i, prim, seg)" and "length p = 86"
  shows "i \<le> 85 \<and> (window_branch (length p) i = Some End \<longleftrightarrow> 82 \<le> i)"
proof -
  have "i < length p"
    using argmin_first_least(1) [OF local_window_idx [OF assms(1)]] by simp
  with assms(2) show ?thesis by (auto simp: window_branch_def margin_def)
qed

theorem third_branch_on_86_rows_witness:
  "local_window Teff logL 2380 =
     Inr (85, [2740, 2680, 2630, 2570, 2420, 2380],
          [- 3.10, - 3.19, - 3.24, - 3.28, - 3.47, - 3.52])
   \<and> length Teff = 86
   \<and> (85::nat) \<le> 85 \<and> window_branch (length Teff) 85 = Some End \<and> (82::nat) \<le> 85"
  using third_branch_on_86_rows [OF window_Teff_logL_2380] window_Teff_logL_2380
  by (simp add: Teff_def)

text \<open>
  C4.  The claim asks for every position from 0 to \<open>nearest + margin\<close>.  The second arm
  asks \<open>linspace\<close> for \<open>nearest + margin\<close> points between these two bounds, one fewer
  than there are integers (the other two arms ask for as many points as there are
  integers), so the points are not integers and rounding down leaves out the position
  \<open>nearest + margin - 1\<close>.  On the table, for each nearest position below \<open>margin\<close>:
\<close>

theorem start_window_skips_a_row:
  "map (idx_peq 86) [0, 1, 2, 3, 4] =
     [Inr [0, 1, 2, 3, 5], Inr [0, 1, 2, 3, 4, 6], Inr [0, 1, 2, 3, 4, 5, 7],
      Inr [0, 1, 2, 3, 4, 5, 6, 8], Inr [0, 1, 2, 3, 4, 5, 6, 7, 9]]"
  by (simp add: idx_peq_def window_branch_def margin_def linspace_int_def upt_rec)

text \<open>
  The first arm also runs when the nearest position is \<open>len - margin\<close> itself; its
  window then ends at position \<open>len\<close>, one past the last row.  On the table this is row
  81, reached for instance by the temperature 2680.
\<close>

lemma row_81_query_raises: "interpolate_in cs Teff logL 2680 = Inl IndexError"
  by (simp add: interpolate_in_def window_defs Teff_def logL_def)

section \<open>The fitted curve\<close>

subsection \<open>The curve passes through its knots\<close>

lemma diff_positive:
  "sorted_wrt (<) x \<Longrightarrow> d \<in> set (diff x) \<Longrightarrow> 0 < d"
  by (induction x rule: diff.induct) auto

lemma diff_positive_strict:
  "\<forall>d \<in> set (diff x). 0 < d \<Longrightarrow> sorted_wrt (<) x"
proof (induction x rule: diff.induct)
  case (1 a b xs)
  then have ab: "a < b" and s: "sorted_wrt (<) (b # xs)" by simp_all
  from s have "\<forall>y \<in> set xs. b < y" by simp
  with ab have "\<forall>y \<in> set (b # xs). a < y" by auto
  with s show ?case by simp
qed simp_all

lemma find_interval_at_knot:
  assumes "sorted_wrt (<) x" and "k < length x"
  shows "find_interval x (x ! k) = min k (length x - 2)"
proof -
  have "takeWhile (\<lambda>t. t \<le> x ! k) (tl x) = take k (tl x)"
  proof (rule takeWhile_eq_take_P_nth)
    fix i assume "i < k" "i < length (tl x)"
    then have "(tl x) ! i = x ! Suc i" by (simp add: nth_tl)
    moreover have "x ! Suc i \<le> x ! k"
    proof (cases "Suc i = k")
      case True then show ?thesis by simp
    next
      case False
      with \<open>i < k\<close> have "Suc i < k" by simp
      with assms have "x ! Suc i < x ! k" by (simp add: sorted_wrt_nth_less)
      then show ?thesis by simp
    qed
    ultimately show "(tl x) ! i \<le> x ! k" by simp
  next
    assume "k < length (tl x)"
    then have "(tl x) ! k = x ! Suc k" and "Suc k < length x" by (simp_all add: nth_tl)
    moreover from assms(1) \<open>Suc k < length x\<close> have "x ! k < x ! Suc k"
      by (simp add: sorted_wrt_nth_less)
    ultimately show "\<not> (tl x) ! k \<le> x ! k" by simp
  qed
  then have "length (takeWhile (\<lambda>t. t \<le> x ! k) (tl x)) = min k (length x - 1)"
    by simp
  with assms(2) show ?thesis unfolding find_interval_def by (simp add: min_def)
qed

lemma cubic_right_end:
  fixes h :: real
  assumes "h \<noteq> 0"
  shows "((s0 + s1 - 2 * ((y1 - y0) / h)) / h / h) * h ^ 3
         + (((y1 - y0) / h - s0) / h - (s0 + s1 - 2 * ((y1 - y0) / h)) / h) * h\<^sup>2
         + s0 * h + y0 = y1"
  using assms by (simp add: field_simps power2_eq_square power3_eq_cube)

lemma piece_right_end:
  assumes "x ! Suc i \<noteq> x ! i"
  shows "eval_piece (piece x y s i) (x ! Suc i - x ! i) = y ! Suc i"
  using cubic_right_end [of "x ! Suc i - x ! i" "s ! i" "s ! Suc i" "y ! Suc i" "y ! i"] assms
  by (simp add: piece_def eval_piece_def Let_def)

lemma piece_left_end: "eval_piece (piece x y s i) 0 = y ! i"
  by (simp add: piece_def eval_piece_def Let_def)

text \<open>
  Whatever derivatives the linear system gives, the curve takes the ordinate of a knot
  at that knot.
\<close>

lemma spline_curve_at_knot:
  assumes "sorted_wrt (<) x" and "2 \<le> length x" and "k < length x"
  shows "spline_curve x y s (x ! k) = y ! k"
proof (cases "k \<le> length x - 2")
  case True
  with assms have "find_interval x (x ! k) = k"
    by (simp add: find_interval_at_knot)
  then show ?thesis
    by (simp add: spline_curve_def piece_left_end)
next
  case False
  define i where "i = length x - 2"
  from False assms have k: "k = Suc i" by (simp add: i_def)
  from assms k have "find_interval x (x ! k) = i"
    by (simp add: find_interval_at_knot i_def)
  then have fi: "find_interval x (x ! Suc i) = i" by (simp add: k)
  from assms k have "x ! i < x ! Suc i"
    by (simp add: sorted_wrt_nth_less)
  then have "x ! Suc i \<noteq> x ! i" by simp
  then show ?thesis
    by (simp add: spline_curve_def fi k piece_right_end)
qed

lemma argsort_perm: "set (argsort a) = {0..<length a}" "distinct (argsort a)" "length (argsort a) = length a"
  by (simp_all add: argsort_def)

lemma sorted_window:
  assumes "distinct prim"
  shows "sorted_wrt (<) (map (\<lambda>i. prim ! i) (argsort prim))"
proof -
  have "sorted (map (\<lambda>i. prim ! i) (argsort prim))"
    unfolding argsort_def by (rule sorted_sort_key)
  moreover have "distinct (map (\<lambda>i. prim ! i) (argsort prim))"
    using assms by (auto simp: distinct_map argsort_perm inj_on_def nth_eq_iff_index_eq)
  ultimately show ?thesis by (simp add: strict_sorted_iff)
qed

lemma zip_map_same: "zip (map f xs) (map g xs) = map (\<lambda>i. (f i, g i)) xs"
  by (induction xs) simp_all

text \<open>
  A query that is one of the source values of its window, these being pairwise
  different, returns the target value of the same row.
\<close>

lemma interpolate_in_at_knot:
  assumes w: "local_window p s v = Inr (i, prim, seg)"
    and d: "distinct prim" and n: "2 \<le> length prim" and j: "j < length prim" "prim ! j = v"
  shows "interpolate_in (CubicSpline_bc b0 b1) p s v = Inr (seg ! j, i)"
proof -
  let ?srt = "argsort prim"
  let ?x = "map (\<lambda>i. prim ! i) ?srt"
  let ?y = "map (\<lambda>i. seg ! i) ?srt"
  have len: "length seg = length prim" using w by (rule local_window_lengths)
  have sx: "sorted_wrt (<) ?x" using d by (rule sorted_window)
  have lx: "length ?x = length prim" "length ?y = length prim" by (simp_all add: argsort_perm)
  from j(1) have "j \<in> set ?srt" by (simp add: argsort_perm)
  then obtain m where m: "m < length ?srt" "?srt ! m = j" by (auto simp: in_set_conv_nth)
  have ok: "\<not> (length ?x < 2 \<or> length ?y \<noteq> length ?x \<or> (\<exists>d \<in> set (diff ?x). d \<le> 0))"
    using n lx diff_positive [OF sx] by force
  have "spline_curve ?x ?y (knot_derivatives b0 b1 ?x ?y) (?x ! m) = ?y ! m"
    using sx n m(1) by (intro spline_curve_at_knot) (simp_all add: argsort_perm)
  moreover have "?x ! m = v" "?y ! m = seg ! j" using m j by simp_all
  ultimately have "spline_curve ?x ?y (knot_derivatives b0 b1 ?x ?y) v = seg ! j" by simp
  with ok w show ?thesis
    by (simp add: interpolate_in_def CubicSpline_bc_def Let_def del: One_nat_def)
qed

text \<open>Two equal source values in the window make the constructor raise.\<close>

lemma CubicSpline_bc_rejects:
  "\<not> distinct x \<Longrightarrow> CubicSpline_bc b0 b1 x y = Inl ValueError"
proof -
  assume nd: "\<not> distinct x"
  have "\<exists>d \<in> set (diff x). d \<le> 0"
  proof (rule ccontr)
    assume "\<not> (\<exists>d \<in> set (diff x). d \<le> 0)"
    then have "\<forall>d \<in> set (diff x). 0 < d" by auto
    then have "sorted_wrt (<) x" by (rule diff_positive_strict)
    then have "distinct x" by (simp add: strict_sorted_iff)
    with nd show False by simp
  qed
  then show ?thesis by (simp add: CubicSpline_bc_def)
qed

lemma interpolate_in_rejects:
  assumes w: "local_window p s v = Inr (i, prim, seg)" and nd: "\<not> distinct prim"
  shows "interpolate_in (CubicSpline_bc b0 b1) p s v = Inl ValueError"
proof -
  have "distinct prim" if "distinct (map (\<lambda>i. prim ! i) (argsort prim))"
  proof -
    from that have "inj_on (\<lambda>i. prim ! i) {0..<length prim}"
      by (simp add: distinct_map argsort_perm)
    then show ?thesis
      by (auto simp: distinct_conv_nth inj_on_def)
  qed
  with nd have "\<not> distinct (map (\<lambda>i. prim ! i) (argsort prim))" by blast
  then have "CubicSpline_bc b0 b1 (map (\<lambda>i. prim ! i) (argsort prim)) (map (\<lambda>i. seg ! i) (argsort prim)) = Inl ValueError"
    by (rule CubicSpline_bc_rejects)
  with w show ?thesis by (simp add: interpolate_in_def Let_def)
qed

subsection \<open>The elimination solves the system\<close>

lemma eliminate_length: "length (eliminate rows c' d') = length rows"
  by (induction rows arbitrary: c' d') (auto simp: Let_def)

lemma substitute_length: "length (substitute ce) = length ce"
  by (induction ce rule: substitute.induct) (auto simp: Let_def)

lemma eliminate_solves:
  assumes "pivots_ok rows c'" and "rows \<noteq> []"
  shows "solves rows (d' - c' * hd (substitute (eliminate rows c' d')))
           (substitute (eliminate rows c' d'))"
  using assms
proof (induction rows arbitrary: c' d')
  case Nil
  then show ?case by simp
next
  case (Cons r rows)
  obtain l d u b where r: "r = (l, d, u, b)" by (cases r) auto
  define m where "m = d - l * c'"
  define c where "c = u / m"
  define e where "e = (b - l * d') / m"
  from Cons.prems r have m: "m \<noteq> 0" and p: "pivots_ok rows c" by (simp_all add: m_def c_def)
  show ?case
  proof (cases rows)
    case Nil
    have me: "m * e = b - l * d'" using m by (simp add: e_def)
    have "l * (d' - c' * e) + d * e = l * d' + m * e"
      by (simp add: m_def algebra_simps)
    with me have "l * (d' - c' * e) + d * e = b" by simp
    with Nil r show ?thesis by (simp add: Let_def m_def e_def)
  next
    case (Cons r2 rest)
    define s' where "s' = substitute (eliminate rows c e)"
    have ne: "rows \<noteq> []" using Cons by simp
    have ih: "solves rows (e - c * hd s') s'"
      unfolding s'_def using Cons.IH [OF p ne] .
    have ls: "length s' = length rows" by (simp add: s'_def substitute_length eliminate_length)
    with ne obtain z zs where s': "s' = z # zs" by (cases s') auto
    obtain ce2 ces where el: "eliminate rows c e = ce2 # ces"
      using ne eliminate_length [of rows c e] by (cases "eliminate rows c e") auto
    have sub: "substitute (eliminate (r # rows) c' d') = (e - c * z) # s'"
      using r el s' unfolding s'_def
      by (simp add: Let_def m_def [symmetric] c_def [symmetric] e_def [symmetric])
    have me: "m * e = b - l * d'" using m by (simp add: e_def)
    have mc: "m * c = u" using m by (simp add: c_def)
    have "l * (d' - c' * (e - c * z)) + d * (e - c * z) + u * z
        = l * d' + m * e - (m * c) * z + u * z"
      by (simp add: m_def algebra_simps)
    with me mc have "l * (d' - c' * (e - c * z)) + d * (e - c * z) + u * z = b" by simp
    with ih sub s' r show ?thesis by simp
  qed
qed

lemma solve_banded_solves:
  assumes "pivots_ok rows 0" and "rows \<noteq> []"
  shows "solves rows 0 (solve_banded rows)"
  using eliminate_solves [OF assms, of 0] by (simp add: solve_banded_def)

lemma solves_length: "solves rows sp s \<Longrightarrow> length s = length rows"
  by (induction rows sp s rule: solves.induct) auto

lemma solves_nth:
  assumes "solves rows sp s" and "k < length rows" and "rows ! k = (l, d, u, b)"
  shows "l * (if k = 0 then sp else s ! (k - 1)) + d * s ! k
         + u * (if Suc k < length rows then s ! Suc k else 0) = b"
  using assms
proof (induction rows sp s arbitrary: k rule: solves.induct)
  case (1 sp s)
  then show ?case by simp
next
  case (2 l d u b rows sp)
  then show ?case by simp
next
  case (3 l' d' u' b' rows sp x xs)
  show ?case
  proof (cases k)
    case 0
    with 3 show ?thesis
      using solves_length [of rows x xs] by (cases xs) auto
  next
    case (Suc j)
    with 3 have "l * (if j = 0 then x else xs ! (j - 1)) + d * xs ! j
         + u * (if Suc j < length rows then xs ! Suc j else 0) = b"
      by simp
    with Suc show ?thesis by (cases j) auto
  qed
qed

text \<open>
  Rows dominated by their diagonal keep the pivots positive; the not-a-knot rows at the two
  ends are not dominated and are treated by hand.
\<close>

lemma dominant_step:
  fixes l d u c' :: real
  assumes "0 \<le> l" "0 \<le> u" "l + u < d" "0 \<le> c'" "c' \<le> 1"
  shows "0 < d - l * c'" and "0 \<le> u / (d - l * c')" and "u / (d - l * c') \<le> 1"
    and "d - l \<le> d - l * c'"
proof -
  have "l * c' \<le> l * 1" by (rule mult_left_mono) (use assms in simp_all)
  then show le: "d - l \<le> d - l * c'" by simp
  with assms show pos: "0 < d - l * c'" by linarith
  from pos assms show "0 \<le> u / (d - l * c')" by simp
  from le assms have "u \<le> d - l * c'" by linarith
  with pos show "u / (d - l * c') \<le> 1" by simp
qed

lemma dominant_pivots:
  assumes "\<forall>r \<in> set rows. dominant r" and "0 \<le> c'" and "c' \<le> 1"
  shows "pivots_ok rows c'"
  using assms
proof (induction rows arbitrary: c')
  case Nil
  then show ?case by simp
next
  case (Cons r rows)
  obtain l d u b where r: "r = (l, d, u, b)" by (cases r) auto
  from Cons.prems r have dom: "0 \<le> l" "0 \<le> u" "l + u < d" by (simp_all add: dominant_def)
  note st = dominant_step [OF dom Cons.prems(2,3)]
  have "pivots_ok rows (u / (d - l * c'))"
    using Cons.prems(1) st(2,3) by (intro Cons.IH) simp_all
  with st(1) r show ?case by simp
qed

lemma not_a_knot_tail_pivots:
  assumes "mid \<noteq> []" and "\<forall>r \<in> set mid. dominant r" and "0 \<le> c'" and "c' \<le> 1"
    and "last mid = (l, 2 * (u + l), u, bb)" and "0 < u" and "0 \<le> l"
  shows "pivots_ok (mid @ [(u + l, u, ul, bl)]) c'"
  using assms(1-5)
proof (induction mid arbitrary: c')
  case Nil
  then show ?case by simp
next
  case (Cons r mid)
  show ?case
  proof (cases mid)
    case Nil
    with Cons.prems have r: "r = (l, 2 * (u + l), u, bb)" by simp
    have dom: "0 \<le> l" "0 \<le> u" "l + u < 2 * (u + l)" using assms(6,7) by simp_all
    note st = dominant_step [OF dom Cons.prems(3,4)]
    define m where "m = 2 * (u + l) - l * c'"
    from st have m: "0 < m" "2 * (u + l) - l \<le> m" by (simp_all add: m_def)
    have "(u + l) * (u / m) = u * (u + l) / m" by simp
    also have "\<dots> < u * 1"
    proof -
      have "u + l < 2 * (u + l) - l" using assms(6) by simp
      then have "u + l < m" using m(2) by (rule less_le_trans)
      with m(1) have "(u + l) / m < 1" by simp
      then have "u * ((u + l) / m) < u * 1" by (rule mult_strict_left_mono) (rule assms(6))
      then show ?thesis by simp
    qed
    finally have "u - (u + l) * (u / m) \<noteq> 0" by simp
    with m(1) Nil r show ?thesis by (simp add: m_def)
  next
    case (Cons r2 rest)
    obtain l' d' u' b' where r: "r = (l', d', u', b')" by (cases r) auto
    from Cons.prems r have dom: "0 \<le> l'" "0 \<le> u'" "l' + u' < d'" by (simp_all add: dominant_def)
    note st = dominant_step [OF dom Cons.prems(3,4)]
    have "pivots_ok (mid @ [(u + l, u, ul, bl)]) (u' / (d' - l' * c'))"
      using Cons.prems Cons st(2,3) by (intro Cons.IH) simp_all
    with st(1) r show ?thesis by simp
  qed
qed

lemma not_a_knot_pivots:
  assumes h: "0 < h0" "0 < h1" and "mid \<noteq> []" and "\<forall>r \<in> set mid. dominant r"
    and "last mid = (l, 2 * (u + l), u, bb)" and "0 < u" and "0 \<le> l"
  shows "pivots_ok ((l0, h1, h0 + h1, b0) # (h1, 2 * (h0 + h1), h0, b1) # mid
           @ [(u + l, u, ul, bl)]) 0"
proof -
  have m1: "2 * (h0 + h1) - h1 * ((h0 + h1) / h1) = h0 + h1" using h by simp
  have c1: "0 \<le> h0 / (h0 + h1)" "h0 / (h0 + h1) \<le> 1" using h by simp_all
  have "pivots_ok (mid @ [(u + l, u, ul, bl)]) (h0 / (h0 + h1))"
    using assms(3-) c1 by (intro not_a_knot_tail_pivots) simp_all
  with h m1 show ?thesis by simp
qed

subsection \<open>The rows of the system by position\<close>

lemma length_diff: "length (diff x) = length x - 1"
  by (induction x rule: diff.induct) simp_all

lemma diff_nth: "Suc i < length x \<Longrightarrow> diff x ! i = x ! Suc i - x ! i"
proof (induction x arbitrary: i rule: diff.induct)
  case (1 a b xs)
  then show ?case by (cases i) simp_all
qed simp_all

lemma diff_nth_pos:
  assumes "sorted_wrt (<) x" and "Suc i < length x"
  shows "0 < diff x ! i"
  using assms by (simp add: diff_nth sorted_wrt_nth_less)

lemma diff_all_pos:
  assumes "sorted_wrt (<) x"
  shows "\<forall>i<length (diff x). 0 < diff x ! i"
  using assms by (auto simp: length_diff intro!: diff_nth_pos)

lemma knot_derivatives_system:
  assumes "length x \<noteq> 2 \<or> (b0 \<noteq> NotAKnot \<and> b1 \<noteq> NotAKnot)"
    and "length x \<noteq> 3 \<or> b0 \<noteq> NotAKnot \<or> b1 \<noteq> NotAKnot"
  shows "knot_derivatives b0 b1 x y = solve_banded (system b0 b1 x y)"
  using assms by (auto simp: knot_derivatives_def system_def Let_def)

lemma slope_nth:
  assumes "Suc i < length x" and "length y = length x"
  shows "map2 (/) (diff y) (diff x) ! i = (y ! Suc i - y ! i) / (x ! Suc i - x ! i)"
  using assms by (simp add: length_diff diff_nth)

lemma length_inner_rows: "length (inner_rows dx slope) = length dx - 1"
  by (simp add: inner_rows_def)

lemma inner_rows_nth:
  assumes "Suc j < length dx"
  shows "inner_rows dx slope ! j =
     (dx ! Suc j, 2 * (dx ! j + dx ! Suc j), dx ! j,
      3 * (dx ! Suc j * slope ! j + dx ! j * slope ! Suc j))"
proof -
  from assms have "[1..<length dx] ! j = Suc j" by (simp del: upt_Suc)
  moreover from assms have "j < length [1..<length dx]" by simp
  ultimately show ?thesis by (simp add: inner_rows_def del: upt_Suc)
qed

lemma length_system: "2 \<le> length x \<Longrightarrow> length (system b0 b1 x y) = length x"
  by (simp add: system_def Let_def length_inner_rows length_diff)

lemma system_first: "system b0 b1 x y ! 0 = first_row b0 x y (diff x) (map2 (/) (diff y) (diff x))"
  by (simp add: system_def Let_def)

lemma system_inner:
  assumes "1 \<le> k" and "Suc k < length x"
  shows "system b0 b1 x y ! k =
     (diff x ! k, 2 * (diff x ! (k - 1) + diff x ! k), diff x ! (k - 1),
      3 * (diff x ! k * map2 (/) (diff y) (diff x) ! (k - 1)
           + diff x ! (k - 1) * map2 (/) (diff y) (diff x) ! k))"
proof -
  from assms obtain j where k: "k = Suc j" by (cases k) auto
  with assms have j: "Suc j < length (diff x)" by (simp add: length_diff)
  then have "j < length (inner_rows (diff x) (map2 (/) (diff y) (diff x)))"
    by (simp add: length_inner_rows)
  then show ?thesis
    using inner_rows_nth [OF j] by (simp add: system_def Let_def k nth_append)
qed

lemma system_last:
  assumes "2 \<le> length x"
  shows "system b0 b1 x y ! (length x - 1)
         = last_row b1 x y (diff x) (map2 (/) (diff y) (diff x))"
proof -
  have "length (first_row b0 x y (diff x) (map2 (/) (diff y) (diff x))
          # inner_rows (diff x) (map2 (/) (diff y) (diff x))) = length x - 1"
    using assms by (simp add: length_inner_rows length_diff)
  then show ?thesis
    unfolding system_def Let_def
    by (metis append_Cons nth_append_length)
qed

lemma inner_rows_dominant:
  assumes "\<forall>i<length dx. 0 < dx ! i" and "r \<in> set (inner_rows dx slope)"
  shows "dominant r"
proof -
  from assms(2) obtain j where j: "j < length (inner_rows dx slope)" "r = inner_rows dx slope ! j"
    by (auto simp: in_set_conv_nth)
  then have sj: "Suc j < length dx" by (simp add: length_inner_rows)
  with assms(1) have "0 < dx ! j" "0 < dx ! Suc j" by simp_all
  then show ?thesis using j(2) inner_rows_nth [OF sj, of slope] by (simp add: dominant_def)
qed

lemma natural_pivots:
  assumes "sorted_wrt (<) x" and "2 \<le> length x"
  shows "pivots_ok (system (Deriv2 v0) (Deriv2 v1) x y) 0"
proof (rule dominant_pivots)
  have p: "\<forall>i<length (diff x). 0 < diff x ! i" using assms(1) by (rule diff_all_pos)
  from assms(2) have "0 < length (diff x)" "length x - 2 < length (diff x)"
    by (simp_all add: length_diff)
  with p have e: "0 < diff x ! 0" "0 < diff x ! (length x - 2)" by simp_all
  show "\<forall>r \<in> set (system (Deriv2 v0) (Deriv2 v1) x y). dominant r"
    using e inner_rows_dominant [OF p]
    by (auto simp: system_def Let_def first_row_def last_row_def dominant_def)
qed simp_all

lemma natural_solves:
  assumes "sorted_wrt (<) x" and "2 \<le> length x"
  shows "solves (system (Deriv2 v0) (Deriv2 v1) x y) 0
           (knot_derivatives (Deriv2 v0) (Deriv2 v1) x y)"
proof -
  have "system (Deriv2 v0) (Deriv2 v1) x y \<noteq> []" by (simp add: system_def Let_def)
  from solve_banded_solves [OF natural_pivots [OF assms] this]
  show ?thesis by (simp add: knot_derivatives_system)
qed

lemma not_a_knot_system_pivots:
  assumes sx: "sorted_wrt (<) x" and n: "4 \<le> length x"
  shows "pivots_ok (system NotAKnot NotAKnot x y) 0"
proof -
  define n where "n = length x"
  define dx where "dx = diff x"
  define slope where "slope = map2 (/) (diff y) dx"
  define inner where "inner = inner_rows dx slope"
  define mid where "mid = tl inner"
  have ldx: "length dx = n - 1" by (simp add: dx_def n_def length_diff)
  have p: "\<forall>i<length dx. 0 < dx ! i" unfolding dx_def using sx by (rule diff_all_pos)
  have n4: "4 \<le> n" using n by (simp add: n_def)
  have li: "length inner = n - 2" by (simp add: inner_def length_inner_rows ldx)
  with n4 have ine: "inner \<noteq> []" by auto
  then have inner: "inner = inner ! 0 # mid" by (cases inner) (simp_all add: mid_def)
  have lm: "length mid = n - 3" by (simp add: mid_def li)
  with n4 have mne: "mid \<noteq> []" by auto
  have i0: "inner ! 0 = (dx ! 1, 2 * (dx ! 0 + dx ! 1), dx ! 0,
      3 * (dx ! 1 * slope ! 0 + dx ! 0 * slope ! 1))"
    unfolding inner_def using inner_rows_nth [of 0 dx slope] ldx n4 by simp
  have "last mid = last inner" using mne by (simp add: mid_def last_tl)
  also have "\<dots> = inner ! (n - 3)" using ine li by (simp add: last_conv_nth)
  finally have lastmid: "last mid = inner ! (n - 3)" .
  have sn: "Suc (n - 3) = n - 2" using n4 by simp
  have il: "inner ! (n - 3) = (dx ! (n - 2), 2 * (dx ! (n - 3) + dx ! (n - 2)), dx ! (n - 3),
      3 * (dx ! (n - 2) * slope ! (n - 3) + dx ! (n - 3) * slope ! (n - 2)))"
    unfolding inner_def using inner_rows_nth [of "n - 3" dx slope] ldx n4 by (simp add: sn)
  have dom: "\<forall>r \<in> set mid. dominant r"
  proof
    fix r assume "r \<in> set mid"
    then have "r \<in> set inner" unfolding mid_def using ine by (meson list.set_sel(2))
    then show "dominant r" unfolding inner_def by (rule inner_rows_dominant [OF p])
  qed
  have pos: "0 < dx ! 0" "0 < dx ! 1" "0 < dx ! (n - 3)" "0 < dx ! (n - 2)"
    using p ldx n4 by simp_all
  have x2: "x ! 2 - x ! 0 = dx ! 0 + dx ! 1"
    using n4 by (simp add: dx_def diff_nth n_def numeral_2_eq_2)
  have xn: "x ! (n - 1) - x ! (n - 3) = dx ! (n - 3) + dx ! (n - 2)"
  proof -
    have lt: "Suc (n - 3) < length x" "Suc (n - 2) < length x" using n4 by (simp_all add: n_def)
    have s2: "Suc (n - 2) = n - 1" using n4 by simp
    have "dx ! (n - 3) = x ! (n - 2) - x ! (n - 3)"
      unfolding dx_def using diff_nth [OF lt(1)] by (simp only: sn)
    moreover have "dx ! (n - 2) = x ! (n - 1) - x ! (n - 2)"
      unfolding dx_def using diff_nth [OF lt(2)] by (simp only: s2)
    ultimately have "dx ! (n - 3) = x ! (n - 2) - x ! (n - 3)" "dx ! (n - 2) = x ! (n - 1) - x ! (n - 2)"
      by simp_all
    then show ?thesis by simp
  qed
  have eq: "system NotAKnot NotAKnot x y =
      (0, dx ! 1, dx ! 0 + dx ! 1,
        ((dx ! 0 + 2 * (dx ! 0 + dx ! 1)) * dx ! 1 * slope ! 0 + (dx ! 0)\<^sup>2 * slope ! 1)
          / (dx ! 0 + dx ! 1))
      # (dx ! 1, 2 * (dx ! 0 + dx ! 1), dx ! 0, 3 * (dx ! 1 * slope ! 0 + dx ! 0 * slope ! 1))
      # mid
      @ [(dx ! (n - 3) + dx ! (n - 2), dx ! (n - 3), 0,
          ((dx ! (n - 2))\<^sup>2 * slope ! (n - 3)
            + (2 * (dx ! (n - 3) + dx ! (n - 2)) + dx ! (n - 2)) * dx ! (n - 3) * slope ! (n - 2))
          / (dx ! (n - 3) + dx ! (n - 2)))]"
    unfolding system_def Let_def first_row_def last_row_def
    using inner i0 x2 xn
    by (simp add: dx_def [symmetric] slope_def [symmetric] inner_def [symmetric] n_def [symmetric])
  have pv: "pivots_ok ((0, dx ! 1, dx ! 0 + dx ! 1,
        ((dx ! 0 + 2 * (dx ! 0 + dx ! 1)) * dx ! 1 * slope ! 0 + (dx ! 0)\<^sup>2 * slope ! 1)
          / (dx ! 0 + dx ! 1))
      # (dx ! 1, 2 * (dx ! 0 + dx ! 1), dx ! 0, 3 * (dx ! 1 * slope ! 0 + dx ! 0 * slope ! 1))
      # mid
      @ [(dx ! (n - 3) + dx ! (n - 2), dx ! (n - 3), 0,
          ((dx ! (n - 2))\<^sup>2 * slope ! (n - 3)
            + (2 * (dx ! (n - 3) + dx ! (n - 2)) + dx ! (n - 2)) * dx ! (n - 3) * slope ! (n - 2))
          / (dx ! (n - 3) + dx ! (n - 2)))]) 0"
  proof (rule not_a_knot_pivots)
    show "last mid = (dx ! (n - 2), 2 * (dx ! (n - 3) + dx ! (n - 2)), dx ! (n - 3),
      3 * (dx ! (n - 2) * slope ! (n - 3) + dx ! (n - 3) * slope ! (n - 2)))"
      using lastmid il by simp
  qed (use pos mne dom in simp_all)
  show ?thesis unfolding eq by (rule pv)
qed

lemma first_equation:
  assumes sv: "solves (system b0 b1 x y) 0 s" and n: "2 \<le> length x"
    and r: "first_row b0 x y (diff x) (map2 (/) (diff y) (diff x)) = (l, d, u, b)"
  shows "d * s ! 0 + u * s ! 1 = b"
proof -
  have len: "length (system b0 b1 x y) = length x" using n by (rule length_system)
  have row: "system b0 b1 x y ! 0 = (l, d, u, b)" using r by (simp add: system_first)
  have "l * (if (0::nat) = 0 then 0 else s ! (0 - 1)) + d * s ! 0
        + u * (if Suc 0 < length (system b0 b1 x y) then s ! Suc 0 else 0) = b"
    using n len by (intro solves_nth [OF sv _ row]) auto
  with n len show ?thesis by simp
qed

lemma last_equation:
  assumes sv: "solves (system b0 b1 x y) 0 s" and n: "length x = Suc (Suc m)"
    and r: "last_row b1 x y (diff x) (map2 (/) (diff y) (diff x)) = (l, d, u, b)"
  shows "l * s ! m + d * s ! Suc m = b"
proof -
  from n have n2: "2 \<le> length x" by simp
  have len: "length (system b0 b1 x y) = length x" using n2 by (rule length_system)
  have row: "system b0 b1 x y ! Suc m = (l, d, u, b)"
    using system_last [OF n2, of b0 b1 y] r n by simp
  have "l * (if Suc m = 0 then 0 else s ! (Suc m - 1)) + d * s ! Suc m
        + u * (if Suc (Suc m) < length (system b0 b1 x y) then s ! Suc (Suc m) else 0) = b"
    using n len by (intro solves_nth [OF sv _ row]) simp
  with n len show ?thesis by simp
qed

lemma inner_equation:
  assumes sv: "solves (system b0 b1 x y) 0 s" and ly: "length y = length x"
    and k: "Suc (Suc k) < length x"
  shows "(x ! Suc (Suc k) - x ! Suc k) * s ! k
       + 2 * ((x ! Suc k - x ! k) + (x ! Suc (Suc k) - x ! Suc k)) * s ! Suc k
       + (x ! Suc k - x ! k) * s ! Suc (Suc k)
       = 3 * ((x ! Suc (Suc k) - x ! Suc k) * ((y ! Suc k - y ! k) / (x ! Suc k - x ! k))
            + (x ! Suc k - x ! k)
              * ((y ! Suc (Suc k) - y ! Suc k) / (x ! Suc (Suc k) - x ! Suc k)))"
proof -
  from k have n2: "2 \<le> length x" by simp
  have len: "length (system b0 b1 x y) = length x" using n2 by (rule length_system)
  have row: "system b0 b1 x y ! Suc k =
     (diff x ! Suc k, 2 * (diff x ! k + diff x ! Suc k), diff x ! k,
      3 * (diff x ! Suc k * map2 (/) (diff y) (diff x) ! k
           + diff x ! k * map2 (/) (diff y) (diff x) ! Suc k))"
    using system_inner [of "Suc k" x b0 b1 y] k by simp
  have "diff x ! Suc k * (if Suc k = 0 then 0 else s ! (Suc k - 1))
        + 2 * (diff x ! k + diff x ! Suc k) * s ! Suc k
        + diff x ! k * (if Suc (Suc k) < length (system b0 b1 x y) then s ! Suc (Suc k) else 0)
        = 3 * (diff x ! Suc k * map2 (/) (diff y) (diff x) ! k
           + diff x ! k * map2 (/) (diff y) (diff x) ! Suc k)"
    using k len by (intro solves_nth [OF sv _ row]) simp
  moreover have "diff x ! k = x ! Suc k - x ! k" "diff x ! Suc k = x ! Suc (Suc k) - x ! Suc k"
    using k by (simp_all add: diff_nth)
  moreover have "map2 (/) (diff y) (diff x) ! k = (y ! Suc k - y ! k) / (x ! Suc k - x ! k)"
    "map2 (/) (diff y) (diff x) ! Suc k
       = (y ! Suc (Suc k) - y ! Suc k) / (x ! Suc (Suc k) - x ! Suc k)"
    using k ly by (simp_all add: slope_nth)
  ultimately show ?thesis using k len by simp
qed

subsection \<open>The derivatives of the pieces\<close>

lemma piece_derivatives:
  "(eval_piece c has_real_derivative piece_d1 c t) (at t)"
  "(piece_d1 c has_real_derivative piece_d2 c t) (at t)"
  "(piece_d2 c has_real_derivative piece_d3 c) (at t)"
  unfolding eval_piece_def piece_d1_def piece_d2_def piece_d3_def
  by (auto simp: split_beta intro!: derivative_eq_intros)

lemma d1_right_end:
  fixes h a b p :: real
  assumes "h \<noteq> 0"
  shows "3 * ((a + b - 2 * p) / h / h) * h\<^sup>2 + 2 * ((p - a) / h - (a + b - 2 * p) / h) * h + a = b"
  using assms by (simp add: field_simps power2_eq_square)

lemma d2_right_end:
  fixes h a b p :: real
  assumes "h \<noteq> 0"
  shows "6 * ((a + b - 2 * p) / h / h) * h + 2 * ((p - a) / h - (a + b - 2 * p) / h)
         = (2 * a + 4 * b - 6 * p) / h"
  using assms by (simp add: field_simps)

lemma d2_left_end:
  fixes h a b p :: real
  shows "2 * ((p - a) / h - (a + b - 2 * p) / h) = (6 * p - 4 * a - 2 * b) / h"
proof -
  have "(p - a) / h - (a + b - 2 * p) / h = ((p - a) - (a + b - 2 * p)) / h"
    by (rule diff_divide_distrib [symmetric])
  then have "2 * ((p - a) / h - (a + b - 2 * p) / h) = (2 * ((p - a) - (a + b - 2 * p))) / h"
    by (simp only: times_divide_eq_right)
  also have "2 * ((p - a) - (a + b - 2 * p)) = 6 * p - 4 * a - 2 * b" by simp
  finally show ?thesis .
qed

lemma c2_algebra:
  fixes h h' a b c p q :: real
  assumes "h \<noteq> 0" "h' \<noteq> 0"
    and "h' * a + 2 * (h + h') * b + h * c = 3 * (h' * p + h * q)"
  shows "(2 * a + 4 * b - 6 * p) / h = (6 * q - 4 * b - 2 * c) / h'"
proof -
  have "(2 * a + 4 * b - 6 * p) * h' = (6 * q - 4 * b - 2 * c) * h"
    using assms(3) by (simp add: algebra_simps)
  with assms(1,2) show ?thesis by (simp add: frac_eq_eq)
qed

lemma not_a_knot_algebra:
  fixes h0 h1 a b c p q :: real
  assumes "h0 \<noteq> 0" "h1 \<noteq> 0" "h0 + h1 \<noteq> 0"
    and r0: "h1 * a + (h0 + h1) * b
             = ((h0 + 2 * (h0 + h1)) * h1 * p + h0\<^sup>2 * q) / (h0 + h1)"
    and r1: "h1 * a + 2 * (h0 + h1) * b + h0 * c = 3 * (h1 * p + h0 * q)"
  shows "(a + b - 2 * p) / h0 / h0 = (b + c - 2 * q) / h1 / h1"
proof -
  from r0 assms(3)
  have r0': "(h1 * a + (h0 + h1) * b) * (h0 + h1) = (h0 + 2 * (h0 + h1)) * h1 * p + h0\<^sup>2 * q"
    by (simp add: field_simps)
  have c: "h0 * c = 3 * (h1 * p + h0 * q) - h1 * a - 2 * (h0 + h1) * b"
    using r1 by simp
  have "h0 * (h0 * (b + c - 2 * q)) = h0 * (h0 * b + h0 * c - 2 * h0 * q)"
    by (simp add: algebra_simps)
  also have "\<dots>
      = h0 * (h0 * b + (3 * (h1 * p + h0 * q) - h1 * a - 2 * (h0 + h1) * b) - 2 * h0 * q)"
    by (simp only: c)
  also have "\<dots> = h1 * (h1 * (a + b - 2 * p))
      + ((h0 + 2 * (h0 + h1)) * h1 * p + h0\<^sup>2 * q - (h1 * a + (h0 + h1) * b) * (h0 + h1))"
    by (simp add: algebra_simps power2_eq_square)
  also have "\<dots> = h1 * (h1 * (a + b - 2 * p))" using r0' by simp
  finally have "(a + b - 2 * p) * (h1 * h1) = (b + c - 2 * q) * (h0 * h0)"
    by (simp add: algebra_simps)
  with assms(1,2) show ?thesis by (simp add: frac_eq_eq divide_divide_eq_left)
qed

lemma piece_d1_ends:
  "piece_d1 (piece x y s k) 0 = s ! k"
  "x ! Suc k \<noteq> x ! k \<Longrightarrow> piece_d1 (piece x y s k) (x ! Suc k - x ! k) = s ! Suc k"
proof -
  show "piece_d1 (piece x y s k) 0 = s ! k"
    by (simp add: piece_d1_def piece_def Let_def)
  assume "x ! Suc k \<noteq> x ! k"
  then have h: "x ! Suc k - x ! k \<noteq> 0" by simp
  show "piece_d1 (piece x y s k) (x ! Suc k - x ! k) = s ! Suc k"
    using d1_right_end [OF h, of "s ! k" "s ! Suc k" "(y ! Suc k - y ! k) / (x ! Suc k - x ! k)"]
    by (simp add: piece_d1_def piece_def Let_def)
qed

lemma piece_d2_ends:
  "piece_d2 (piece x y s k) 0
     = (6 * ((y ! Suc k - y ! k) / (x ! Suc k - x ! k)) - 4 * s ! k - 2 * s ! Suc k)
       / (x ! Suc k - x ! k)"
  "x ! Suc k \<noteq> x ! k \<Longrightarrow> piece_d2 (piece x y s k) (x ! Suc k - x ! k)
     = (2 * s ! k + 4 * s ! Suc k - 6 * ((y ! Suc k - y ! k) / (x ! Suc k - x ! k)))
       / (x ! Suc k - x ! k)"
proof -
  show "piece_d2 (piece x y s k) 0
     = (6 * ((y ! Suc k - y ! k) / (x ! Suc k - x ! k)) - 4 * s ! k - 2 * s ! Suc k)
       / (x ! Suc k - x ! k)"
    using d2_left_end [of "(y ! Suc k - y ! k) / (x ! Suc k - x ! k)" "s ! k"
        "x ! Suc k - x ! k" "s ! Suc k"]
    by (simp add: piece_d2_def piece_def Let_def)
  assume "x ! Suc k \<noteq> x ! k"
  then have h: "x ! Suc k - x ! k \<noteq> 0" by simp
  show "piece_d2 (piece x y s k) (x ! Suc k - x ! k)
     = (2 * s ! k + 4 * s ! Suc k - 6 * ((y ! Suc k - y ! k) / (x ! Suc k - x ! k)))
       / (x ! Suc k - x ! k)"
    using d2_right_end [OF h, of "s ! k" "s ! Suc k" "(y ! Suc k - y ! k) / (x ! Suc k - x ! k)"]
    by (simp add: piece_d2_def piece_def Let_def)
qed

lemma piece_d3_eq:
  "piece_d3 (piece x y s k)
     = 6 * ((s ! k + s ! Suc k - 2 * ((y ! Suc k - y ! k) / (x ! Suc k - x ! k)))
            / (x ! Suc k - x ! k) / (x ! Suc k - x ! k))"
  by (simp add: piece_d3_def piece_def Let_def)

lemma solved_is_smooth:
  assumes sv: "solves (system b0 b1 x y) 0 s" and ly: "length y = length x"
    and sx: "sorted_wrt (<) x"
  shows "smooth_at_knots x y s"
  unfolding smooth_at_knots_def
proof (intro allI impI conjI)
  fix k assume k: "Suc (Suc k) < length x"
  from sx k have lt: "x ! k < x ! Suc k" "x ! Suc k < x ! Suc (Suc k)"
    by (simp_all add: sorted_wrt_nth_less)
  then have ne: "x ! Suc k \<noteq> x ! k" "x ! Suc (Suc k) \<noteq> x ! Suc k" by simp_all
  show "piece_d1 (piece x y s k) (x ! Suc k - x ! k) = piece_d1 (piece x y s (Suc k)) 0"
    using ne by (simp add: piece_d1_ends)
  have h: "x ! Suc k - x ! k \<noteq> 0" "x ! Suc (Suc k) - x ! Suc k \<noteq> 0" using ne by simp_all
  show "piece_d2 (piece x y s k) (x ! Suc k - x ! k) = piece_d2 (piece x y s (Suc k)) 0"
    unfolding piece_d2_ends(1) piece_d2_ends(2) [OF ne(1)]
    by (rule c2_algebra [OF h inner_equation [OF sv ly k]])
qed

lemma solved_natural_ends:
  assumes sv: "solves (system (Deriv2 0) (Deriv2 0) x y) 0 s" and ly: "length y = length x"
    and sx: "sorted_wrt (<) x" and n: "2 \<le> length x"
  shows "natural_ends x y s"
proof -
  from n obtain m where m: "length x = Suc (Suc m)"
    by (metis Suc_le_D numeral_2_eq_2 Suc_le_mono)
  have d0: "diff x ! 0 = x ! Suc 0 - x ! 0" using n by (simp add: diff_nth)
  have dm: "diff x ! m = x ! Suc m - x ! m" using m by (simp add: diff_nth)
  have h0: "x ! 0 < x ! Suc 0" using sx n by (simp add: sorted_wrt_nth_less)
  have hm: "x ! m < x ! Suc m" using sx m by (simp add: sorted_wrt_nth_less)
  have e0: "2 * (x ! Suc 0 - x ! 0) * s ! 0 + (x ! Suc 0 - x ! 0) * s ! 1
            = 3 * (y ! Suc 0 - y ! 0)"
    using first_equation [OF sv n, of 0 "2 * diff x ! 0" "diff x ! 0" "3 * (y ! 1 - y ! 0)"] d0
    by (simp add: first_row_def)
  have em: "(x ! Suc m - x ! m) * s ! m + 2 * (x ! Suc m - x ! m) * s ! Suc m
            = 3 * (y ! Suc m - y ! m)"
    using last_equation [OF sv m, of "diff x ! m" "2 * diff x ! m" 0 "3 * (y ! Suc m - y ! m)"] dm m
    by (simp add: last_row_def)
  have a: "piece_d2 (piece x y s 0) 0 = 0"
  proof -
    have "6 * ((y ! Suc 0 - y ! 0) / (x ! Suc 0 - x ! 0)) - 4 * s ! 0 - 2 * s ! Suc 0 = 0"
      using e0 h0 by (simp add: field_simps)
    then show ?thesis unfolding piece_d2_ends(1) by simp
  qed
  have b: "piece_d2 (piece x y s m) (x ! Suc m - x ! m) = 0"
  proof -
    from hm have ne: "x ! Suc m \<noteq> x ! m" by simp
    have "2 * s ! m + 4 * s ! Suc m - 6 * ((y ! Suc m - y ! m) / (x ! Suc m - x ! m)) = 0"
      using em hm by (simp add: field_simps)
    then show ?thesis unfolding piece_d2_ends(2) [OF ne] by simp
  qed
  from a b m show ?thesis by (simp add: natural_ends_def)
qed

lemma solved_not_a_knot_ends:
  assumes sv: "solves (system NotAKnot NotAKnot x y) 0 s" and ly: "length y = length x"
    and sx: "sorted_wrt (<) x" and n: "4 \<le> length x"
  shows "not_a_knot_ends x y s"
proof -
  from n obtain m where m: "length x = Suc (Suc (Suc (Suc m)))"
    by (metis Suc_le_D eval_nat_numeral(2) eval_nat_numeral(3) Suc_le_mono numeral_2_eq_2 semiring_norm(26) semiring_norm(27))
  define h0 where "h0 = x ! 1 - x ! 0"
  define h1 where "h1 = x ! 2 - x ! 1"
  define p0 where "p0 = (y ! 1 - y ! 0) / h0"
  define p1 where "p1 = (y ! 2 - y ! 1) / h1"
  define ha where "ha = x ! Suc (Suc m) - x ! Suc m"
  define hb where "hb = x ! Suc (Suc (Suc m)) - x ! Suc (Suc m)"
  define pa where "pa = (y ! Suc (Suc m) - y ! Suc m) / ha"
  define pb where "pb = (y ! Suc (Suc (Suc m)) - y ! Suc (Suc m)) / hb"
  have pos: "0 < h0" "0 < h1" "0 < ha" "0 < hb"
    using sx m by (simp_all add: h0_def h1_def ha_def hb_def sorted_wrt_nth_less)
  have d: "diff x ! 0 = h0" "diff x ! 1 = h1" "diff x ! Suc 0 = h1" "diff x ! Suc m = ha"
    "diff x ! Suc (Suc m) = hb"
    using m by (simp_all add: diff_nth h0_def h1_def ha_def hb_def numeral_2_eq_2)
  have sl: "map2 (/) (diff y) (diff x) ! 0 = p0" "map2 (/) (diff y) (diff x) ! 1 = p1"
    "map2 (/) (diff y) (diff x) ! Suc 0 = p1"
    "map2 (/) (diff y) (diff x) ! Suc m = pa" "map2 (/) (diff y) (diff x) ! Suc (Suc m) = pb"
    using m ly slope_nth [of 0 x y] slope_nth [of 1 x y] slope_nth [of "Suc m" x y]
      slope_nth [of "Suc (Suc m)" x y]
    by (simp_all add: p0_def p1_def pa_def pb_def h0_def h1_def ha_def hb_def numeral_2_eq_2)
  have x20: "x ! 2 - x ! 0 = h0 + h1" by (simp add: h0_def h1_def)
  have xba: "x ! Suc (Suc (Suc m)) - x ! Suc m = hb + ha" by (simp add: ha_def hb_def)
  have n2: "2 \<le> length x" using n by simp
  have fr: "first_row NotAKnot x y (diff x) (map2 (/) (diff y) (diff x))
      = (0, h1, h0 + h1, ((h0 + 2 * (h0 + h1)) * h1 * p0 + h0\<^sup>2 * p1) / (h0 + h1))"
    unfolding first_row_def Let_def by (simp only: bc.case d sl x20)
  have r0: "h1 * s ! 0 + (h0 + h1) * s ! 1
            = ((h0 + 2 * (h0 + h1)) * h1 * p0 + h0\<^sup>2 * p1) / (h0 + h1)"
    using first_equation [OF sv n2 fr] .
  have r1: "h1 * s ! 0 + 2 * (h0 + h1) * s ! 1 + h0 * s ! 2 = 3 * (h1 * p0 + h0 * p1)"
    using inner_equation [OF sv ly, of 0] m
    by (simp add: h0_def h1_def p0_def p1_def numeral_2_eq_2)
  have start: "(s ! 0 + s ! 1 - 2 * p0) / h0 / h0 = (s ! 1 + s ! 2 - 2 * p1) / h1 / h1"
    using pos by (intro not_a_knot_algebra [OF _ _ _ r0 r1]) simp_all
  have lr: "last_row NotAKnot x y (diff x) (map2 (/) (diff y) (diff x))
      = (hb + ha, ha, 0, (hb\<^sup>2 * pa + (2 * (hb + ha) + hb) * ha * pb) / (hb + ha))"
  proof -
    have idx: "length x - 1 = Suc (Suc (Suc m))" "length x - 2 = Suc (Suc m)"
      "length x - 3 = Suc m" using m by simp_all
    show ?thesis
      unfolding last_row_def Let_def idx by (simp only: bc.case d sl xba)
  qed
  have e0: "ha * s ! Suc (Suc (Suc m)) + (hb + ha) * s ! Suc (Suc m)
            = ((hb + 2 * (hb + ha)) * ha * pb + hb\<^sup>2 * pa) / (hb + ha)"
    using last_equation [OF sv m lr] by (simp add: algebra_simps)
  have e1: "ha * s ! Suc (Suc (Suc m)) + 2 * (hb + ha) * s ! Suc (Suc m) + hb * s ! Suc m
            = 3 * (ha * pb + hb * pa)"
    using inner_equation [OF sv ly, of "Suc m"] m
    by (simp add: ha_def hb_def pa_def pb_def algebra_simps)
  have "(s ! Suc (Suc (Suc m)) + s ! Suc (Suc m) - 2 * pb) / hb / hb
        = (s ! Suc (Suc m) + s ! Suc m - 2 * pa) / ha / ha"
    using pos by (intro not_a_knot_algebra [OF _ _ _ e0 e1]) simp_all
  then have "(s ! Suc m + s ! Suc (Suc m) - 2 * pa) / ha / ha
        = (s ! Suc (Suc m) + s ! Suc (Suc (Suc m)) - 2 * pb) / hb / hb"
    by (simp add: add.commute)
  with start m show ?thesis
    unfolding not_a_knot_ends_def piece_d3_eq
    by (simp add: h0_def h1_def p0_def p1_def ha_def hb_def pa_def pb_def numeral_2_eq_2
        numeral_3_eq_3)
qed

text \<open>
  Both constructors build what their names say.  For strictly increasing abscissas the
  curve of \<open>natural_CubicSpline\<close> passes through the points, has continuous first and
  second derivatives at the inner knots and second derivative zero at both ends; the
  curve of \<open>CubicSpline\<close>, for four points or more, passes through the points, is as
  smooth, and satisfies the not-a-knot conditions instead.
\<close>

theorem natural_curve:
  assumes "sorted_wrt (<) x" and "length y = length x" and "2 \<le> length x"
  shows "passes_through x y (knot_derivatives (Deriv2 0) (Deriv2 0) x y)
     \<and> smooth_at_knots x y (knot_derivatives (Deriv2 0) (Deriv2 0) x y)
     \<and> natural_ends x y (knot_derivatives (Deriv2 0) (Deriv2 0) x y)"
proof -
  note sv = natural_solves [OF assms(1,3), of 0 0 y]
  have "passes_through x y (knot_derivatives (Deriv2 0) (Deriv2 0) x y)"
    unfolding passes_through_def using assms by (auto intro: spline_curve_at_knot)
  with solved_is_smooth [OF sv assms(2,1)] solved_natural_ends [OF sv assms(2,1,3)]
  show ?thesis by simp
qed

theorem default_curve:
  assumes "sorted_wrt (<) x" and "length y = length x" and "4 \<le> length x"
  shows "passes_through x y (knot_derivatives NotAKnot NotAKnot x y)
     \<and> smooth_at_knots x y (knot_derivatives NotAKnot NotAKnot x y)
     \<and> not_a_knot_ends x y (knot_derivatives NotAKnot NotAKnot x y)"
proof -
  have ne: "system NotAKnot NotAKnot x y \<noteq> []" by (simp add: system_def Let_def)
  have "solves (system NotAKnot NotAKnot x y) 0 (solve_banded (system NotAKnot NotAKnot x y))"
    using solve_banded_solves [OF not_a_knot_system_pivots [OF assms(1,3)] ne] .
  moreover have "knot_derivatives NotAKnot NotAKnot x y
      = solve_banded (system NotAKnot NotAKnot x y)"
    using assms(3) by (intro knot_derivatives_system) simp_all
  ultimately have sv: "solves (system NotAKnot NotAKnot x y) 0
      (knot_derivatives NotAKnot NotAKnot x y)" by simp
  have "passes_through x y (knot_derivatives NotAKnot NotAKnot x y)"
    unfolding passes_through_def using assms by (auto intro: spline_curve_at_knot)
  with solved_is_smooth [OF sv assms(2,1)] solved_not_a_knot_ends [OF sv assms(2,1,3)]
  show ?thesis by simp
qed

text \<open>The window of a call that returns has five points or more.\<close>

lemma length_linspace_int: "length (linspace_int a b n) = n"
  by (simp add: linspace_int_def)

lemma idx_peq_length:
  assumes "idx_peq n i = Inr ks" and "i < n"
  shows "5 \<le> length ks"
  using assms
  by (auto simp: idx_peq_def window_branch_def margin_def length_linspace_int
      split: option.splits branch.splits if_splits)

lemma local_window_size:
  assumes "local_window p s v = Inr (i, prim, seg)"
  shows "5 \<le> length prim"
proof -
  have i: "i < length p"
    using argmin_first_least(1) [OF local_window_idx [OF assms]] by simp
  from assms obtain ks where ks: "idx_peq (length p) i = Inr ks" "take_idx p ks = Inr prim"
    by (auto simp: local_window_def split: sum.splits)
  from idx_peq_length [OF ks(1) i] take_idx_length [OF ks(2)] show ?thesis by simp
qed

subsection \<open>Which curve it is\<close>

text \<open>
  C5 as stated fails.  The program calls \<open>CubicSpline\<close> without a boundary condition
  and gets the \<open>not-a-knot\<close> curve.  For the temperature 44000 and the target \<open>logL\<close> the
  window is rows 0, 1, 2, 3 and 5; the program returns about 5.7263, the natural spline
  through the same five points gives about 5.7379.
\<close>

theorem natural_spline_differs:
  "interpolate_in CubicSpline Teff logL 44000 = Inr (31020592279 / 5417250000, 0)
   \<and> interpolate_in natural_CubicSpline Teff logL 44000 = Inr (2887316519 / 503200000, 0)
   \<and> (31020592279 / 5417250000 :: real) \<noteq> 2887316519 / 503200000"
  using run_default_44000 run_natural_44000 by simp

text \<open>
  C5, amended.  The value returned is the value at the query of the curve that the
  library builds by default through the pairs of the window, put in strictly ascending
  order of the source value: the piecewise cubic that passes through these pairs, has
  continuous first and second derivatives at the inner knots, and satisfies the
  not-a-knot conditions at the two ends (not the natural ones).
\<close>

theorem interpolated_value_is_default_spline:
  assumes "interpolate_in CubicSpline p s v = Inr (y, i)"
  shows "\<exists>prim seg x yy. local_window p s v = Inr (i, prim, seg)
     \<and> sorted_wrt (<) x \<and> length x = length prim \<and> length yy = length prim
     \<and> set (zip x yy) = set (zip prim seg)
     \<and> y = spline_curve x yy (knot_derivatives NotAKnot NotAKnot x yy) v
     \<and> passes_through x yy (knot_derivatives NotAKnot NotAKnot x yy)
     \<and> smooth_at_knots x yy (knot_derivatives NotAKnot NotAKnot x yy)
     \<and> not_a_knot_ends x yy (knot_derivatives NotAKnot NotAKnot x yy)"
proof -
  from assms obtain prim seg where w: "local_window p s v = Inr (i, prim, seg)"
    by (auto simp: interpolate_in_def Let_def split: sum.splits)
  let ?srt = "argsort prim"
  let ?x = "map (\<lambda>i. prim ! i) ?srt"
  let ?y = "map (\<lambda>i. seg ! i) ?srt"
  have len: "length seg = length prim" using w by (rule local_window_lengths)
  have n: "4 \<le> length ?x" using local_window_size [OF w] by (simp add: argsort_perm)
  from assms w have ok: "\<not> (\<exists>d \<in> set (diff ?x). d \<le> 0)"
    and y: "y = spline_curve ?x ?y (knot_derivatives NotAKnot NotAKnot ?x ?y) v"
    by (auto simp: interpolate_in_def CubicSpline_def CubicSpline_bc_def Let_def
        split: if_splits)
  from ok have "\<forall>d \<in> set (diff ?x). 0 < d" by auto
  then have sx: "sorted_wrt (<) ?x" by (rule diff_positive_strict)
  have "zip ?x ?y = map (\<lambda>i. (prim ! i, seg ! i)) ?srt"
    by (rule zip_map_same)
  then have "set (zip ?x ?y) = (\<lambda>i. (prim ! i, seg ! i)) ` {0..<length prim}"
    by (simp add: argsort_perm)
  also have "\<dots> = set (zip prim seg)"
    using len by (auto simp: set_zip)
  finally have z: "set (zip ?x ?y) = set (zip prim seg)" .
  have lxy: "length ?y = length ?x" by simp
  note c = default_curve [OF sx lxy n]
  show ?thesis
    using w sx z y c
    by (intro exI [of _ prim] exI [of _ seg] exI [of _ ?x] exI [of _ ?y])
      (simp add: argsort_perm)
qed

theorem interpolated_value_is_default_spline_witness:
  "interpolate_in CubicSpline Teff logL 44000 = Inr (31020592279 / 5417250000, 0)
   \<and> (\<exists>prim seg x yy. local_window Teff logL 44000 = Inr (0, prim, seg)
     \<and> sorted_wrt (<) x \<and> length x = length prim \<and> length yy = length prim
     \<and> set (zip x yy) = set (zip prim seg)
     \<and> 31020592279 / 5417250000
         = spline_curve x yy (knot_derivatives NotAKnot NotAKnot x yy) 44000)"
  using interpolated_value_is_default_spline [OF run_default_44000] run_default_44000
  by blast

subsection \<open>Queries at the first and at the last value of a column\<close>

lemma first_value_returns:
  assumes "length col = 86" and "length seg = 86"
    and "argmin (map (\<lambda>x. \<bar>hd col - x\<bar>) col) = Inr 0"
    and d: "distinct (map (\<lambda>k. col ! k) [0, 1, 2, 3, 5])"
  shows "interpolate_in CubicSpline col seg (hd col) = Inr (seg ! 0, 0)"
proof -
  have h: "map (\<lambda>k. col ! k) [0, 1, 2, 3, 5] ! 0 = hd col"
    using assms(1) by (cases col) simp_all
  show ?thesis
    unfolding CubicSpline_def
    using interpolate_in_at_knot [OF first_value_window [OF assms(1-3)] d _ _ h, of NotAKnot NotAKnot]
    by simp
qed

lemma last_value_returns:
  assumes "length col = 86" and "length seg = 86"
    and "argmin (map (\<lambda>x. \<bar>last col - x\<bar>) col) = Inr 85"
    and d: "distinct (map (\<lambda>k. col ! k) [80, 81, 82, 83, 84, 85])"
  shows "interpolate_in CubicSpline col seg (last col) = Inr (seg ! 85, 85)"
proof -
  have "col \<noteq> []" using assms(1) by auto
  then have "last col = col ! 85" using assms(1) by (simp add: last_conv_nth)
  then have h: "map (\<lambda>k. col ! k) [80, 81, 82, 83, 84, 85] ! 5 = last col" by simp
  show ?thesis
    unfolding CubicSpline_def
    using interpolate_in_at_knot [OF last_value_window_85 [OF assms(1-3)] d _ _ h, of NotAKnot NotAKnot]
    by simp
qed

lemma last_value_rejected:
  assumes "length col = 86" and "length seg = 86"
    and "argmin (map (\<lambda>x. \<bar>v - x\<bar>) col) = Inr 84"
    and "col ! 84 = col ! 85"
  shows "interpolate_in CubicSpline col seg v = Inl ValueError"
  unfolding CubicSpline_def
  using interpolate_in_rejects [OF last_value_window_84 [OF assms(1-3)], of NotAKnot NotAKnot] assms(4)
  by simp

lemma regular_ends:
  assumes "length col = 86" and "length seg = 86"
    and "argmin (map (\<lambda>x. \<bar>hd col - x\<bar>) col) = Inr 0"
    and "distinct (map (\<lambda>k. col ! k) [0, 1, 2, 3, 5])"
    and "argmin (map (\<lambda>x. \<bar>last col - x\<bar>) col) = Inr 85"
    and "distinct (map (\<lambda>k. col ! k) [80, 81, 82, 83, 84, 85])"
  shows "local_window col seg (hd col) =
       Inr (0, map (\<lambda>k. col ! k) [0, 1, 2, 3, 5], map (\<lambda>k. seg ! k) [0, 1, 2, 3, 5])
     \<and> window_branch (length col) 0 = Some Start
     \<and> interpolate_in CubicSpline col seg (hd col) = Inr (seg ! 0, 0)
     \<and> (\<exists>i. local_window col seg (last col) =
            Inr (i, map (\<lambda>k. col ! k) [i - 5..<86], map (\<lambda>k. seg ! k) [i - 5..<86])
          \<and> window_branch (length col) i = Some End)
     \<and> interpolate_in CubicSpline col seg (last col) = Inr (seg ! 85, 85)"
proof -
  have "local_window col seg (last col) =
       Inr (85, map (\<lambda>k. col ! k) [85 - 5..<86], map (\<lambda>k. seg ! k) [85 - 5..<86])"
    using last_value_window_85 [OF assms(1,2,5)] by (simp add: upt_rec)
  moreover have "window_branch (length col) 85 = Some End"
    using assms(1) by (simp add: window_branch_def margin_def)
  ultimately have "\<exists>i. local_window col seg (last col) =
            Inr (i, map (\<lambda>k. col ! k) [i - 5..<86], map (\<lambda>k. seg ! k) [i - 5..<86])
          \<and> window_branch (length col) i = Some End" by blast
  moreover have "window_branch (length col) 0 = Some Start"
    using assms(1) by (simp add: window_branch_def margin_def)
  ultimately show ?thesis
    using first_value_window [OF assms(1,2,3)] first_value_returns [OF assms(1-4)]
      last_value_returns [OF assms(1,2,5,6)]
    by simp
qed

lemma duplicate_ends:
  assumes "length col = 86" and "length seg = 86"
    and "argmin (map (\<lambda>x. \<bar>hd col - x\<bar>) col) = Inr 0"
    and "distinct (map (\<lambda>k. col ! k) [0, 1, 2, 3, 5])"
    and "argmin (map (\<lambda>x. \<bar>last col - x\<bar>) col) = Inr 84"
    and "col ! 84 = col ! 85"
  shows "local_window col seg (hd col) =
       Inr (0, map (\<lambda>k. col ! k) [0, 1, 2, 3, 5], map (\<lambda>k. seg ! k) [0, 1, 2, 3, 5])
     \<and> window_branch (length col) 0 = Some Start
     \<and> interpolate_in CubicSpline col seg (hd col) = Inr (seg ! 0, 0)
     \<and> (\<exists>i. local_window col seg (last col) =
            Inr (i, map (\<lambda>k. col ! k) [i - 5..<86], map (\<lambda>k. seg ! k) [i - 5..<86])
          \<and> window_branch (length col) i = Some End)
     \<and> interpolate_in CubicSpline col seg (last col) = Inl ValueError"
proof -
  have "local_window col seg (last col) =
       Inr (84, map (\<lambda>k. col ! k) [84 - 5..<86], map (\<lambda>k. seg ! k) [84 - 5..<86])"
    using last_value_window_84 [OF assms(1,2,5)] by (simp add: upt_rec)
  moreover have "window_branch (length col) 84 = Some End"
    using assms(1) by (simp add: window_branch_def margin_def)
  ultimately have "\<exists>i. local_window col seg (last col) =
            Inr (i, map (\<lambda>k. col ! k) [i - 5..<86], map (\<lambda>k. seg ! k) [i - 5..<86])
          \<and> window_branch (length col) i = Some End" by blast
  moreover have "window_branch (length col) 0 = Some Start"
    using assms(1) by (simp add: window_branch_def margin_def)
  ultimately show ?thesis
    using first_value_window [OF assms(1,2,3)] first_value_returns [OF assms(1-4)]
      last_value_rejected [OF assms(1,2,5,6)]
    by simp
qed

text \<open>
  C8 as stated fails for two columns.  The last two entries of \<open>Rsun\<close> are both 0.10:
  the query 0.10 has its nearest position at row 84, the window is rows 79 to 85, all
  inside the table, and the constructor rejects the window because two of its source
  values are equal.  The call does not complete (and neither does it for \<open>Msun\<close>).
\<close>

theorem last_value_of_R_is_rejected:
  "last Rsun = 0.10 \<and> interpolate_in CubicSpline Rsun logL 0.10 = Inl ValueError"
  using last_value_rejected [OF Rsun_ends(3) logL_ends(3) Rsun_last_nearest
      duplicate_last_rows(1)] Rsun_ends(2)
  by simp

text \<open>
  C8, amended.  For every source column and every target column: the query at the
  first value has its window made of rows 0, 1, 2, 3 and 5, chosen by the second arm,
  and returns the target value of row 0; the query at the last value has its nearest
  position \<open>i\<close> at row 84 or 85 and its window made of rows \<open>i - 5\<close> to 85, chosen by
  the third arm.  No position of either window is outside the table.  The call at the
  last value returns the target value of row 85, except for \<open>Rsun\<close> and \<open>Msun\<close>, where
  it raises \<open>ValueError\<close>.
\<close>

theorem first_and_last_value_queries:
  assumes "col \<in> snd ` set convers" and "seg \<in> snd ` set convers"
  shows "local_window col seg (hd col) =
       Inr (0, map (\<lambda>k. col ! k) [0, 1, 2, 3, 5], map (\<lambda>k. seg ! k) [0, 1, 2, 3, 5])
     \<and> window_branch (length col) 0 = Some Start
     \<and> interpolate_in CubicSpline col seg (hd col) = Inr (seg ! 0, 0)
     \<and> (\<exists>i. local_window col seg (last col) =
            Inr (i, map (\<lambda>k. col ! k) [i - 5..<86], map (\<lambda>k. seg ! k) [i - 5..<86])
          \<and> window_branch (length col) i = Some End)
     \<and> interpolate_in CubicSpline col seg (last col) =
         (if col = Rsun \<or> col = Msun then Inl ValueError else Inr (seg ! 85, 85))"
proof -
  have ls: "length seg = 86"
    using assms(2) table_lengths by (auto simp: convers_def)
  from assms(1) show ?thesis
  proof (cases rule: column_cases)
    case 1
    show ?thesis unfolding 1
      using regular_ends [OF Teff_ends(3) ls] Teff_first_nearest Teff_last_nearest
        Teff_first_distinct Teff_last_distinct other_columns
      by (simp only: Teff_ends if_False simp_thms)
  next
    case 2
    show ?thesis unfolding 2
      using regular_ends [OF logTeff_ends(3) ls] logTeff_first_nearest logTeff_last_nearest
        logTeff_first_distinct logTeff_last_distinct other_columns
      by (simp only: logTeff_ends if_False simp_thms)
  next
    case 3
    show ?thesis unfolding 3
      using regular_ends [OF logL_ends(3) ls] logL_first_nearest logL_last_nearest
        logL_first_distinct logL_last_distinct other_columns
      by (simp only: logL_ends if_False simp_thms)
  next
    case 4
    show ?thesis unfolding 4
      using regular_ends [OF Mbol_ends(3) ls] Mbol_first_nearest Mbol_last_nearest
        Mbol_first_distinct Mbol_last_distinct other_columns
      by (simp only: Mbol_ends if_False simp_thms)
  next
    case 5
    show ?thesis unfolding 5
      using duplicate_ends [OF Rsun_ends(3) ls] Rsun_first_nearest Rsun_last_nearest
        Rsun_first_distinct duplicate_last_rows
      by (simp only: Rsun_ends if_True simp_thms)
  next
    case 6
    show ?thesis unfolding 6
      using regular_ends [OF Mv_ends(3) ls] Mv_first_nearest Mv_last_nearest
        Mv_first_distinct Mv_last_distinct other_columns
      by (simp only: Mv_ends if_False simp_thms)
  next
    case 7
    show ?thesis unfolding 7
      using regular_ends [OF BV_ends(3) ls] BV_first_nearest BV_last_nearest
        BV_first_distinct BV_last_distinct other_columns
      by (simp only: BV_ends if_False simp_thms)
  next
    case 8
    show ?thesis unfolding 8
      using duplicate_ends [OF Msun_ends(3) ls] Msun_first_nearest Msun_last_nearest
        Msun_first_distinct duplicate_last_rows
      by (simp only: Msun_ends if_True simp_thms)
  qed
qed

theorem first_and_last_value_queries_witness:
  "Teff \<in> snd ` set convers \<and> logL \<in> snd ` set convers
   \<and> window_branch (length Teff) 0 = Some Start
   \<and> interpolate_in CubicSpline Teff logL (hd Teff) = Inr (logL ! 0, 0)
   \<and> interpolate_in CubicSpline Teff logL (last Teff) = Inr (logL ! 85, 85)"
  using first_and_last_value_queries [of Teff logL] other_columns(1,2)
  by (simp add: convers_def)

section \<open>The main block\<close>

text \<open>
  C7.  With a quantity name and no values the run prints the message about the missing
  values and then stops at line 194 with an uncaught \<open>AttributeError\<close> (\<open>None\<close> has no
  \<open>find\<close>): nothing else is printed, no interpolation is made (the result is the same
  for every spline constructor and every float parser), and the exit status is 1.
\<close>

theorem no_values_stops_the_run:
  assumes "given a = Some g" and "val a = None"
  shows "main cs fl a = Inl (AttributeError, [Msg NoValues])
     \<and> exit_status (main cs fl a) = Some 1"
  using assms by (simp add: main_def)

theorem no_values_stops_the_run_witness:
  "given \<lparr>given = Some ''Teff'', val = None, atdist = None, mas = False, Ebv = 0,
          binary = False\<rparr> = Some ''Teff''
   \<and> val \<lparr>given = Some ''Teff'', val = None, atdist = None, mas = False, Ebv = 0,
          binary = False\<rparr> = None
   \<and> main CubicSpline decimal
       \<lparr>given = Some ''Teff'', val = None, atdist = None, mas = False, Ebv = 0,
        binary = False\<rparr> = Inl (AttributeError, [Msg NoValues])
   \<and> exit_status (main CubicSpline decimal
       \<lparr>given = Some ''Teff'', val = None, atdist = None, mas = False, Ebv = 0,
        binary = False\<rparr>) = Some 1"
  using no_values_stops_the_run [of "\<lparr>given = Some ''Teff'', val = None, atdist = None,
    mas = False, Ebv = 0, binary = False\<rparr>" "''Teff''" CubicSpline decimal]
  by simp

subsection \<open>Runs at tabulated temperatures\<close>

lemmas run_defs =
  main_def distance_def resolve_given_def star_step_def key_interpolate_def
  key_apparent_def interpolate_given_def convers_def emit_def binary_report_def Vbin_def
  upt_rec Let_def

lemmas column_ends =
  Teff_ends logTeff_ends logL_ends Mbol_ends Rsun_ends Mv_ends BV_ends Msun_ends

lemma parse_44900: "read_values decimal ''44900'' = Inr ([44900], 1)"
  by (simp add: read_values_def parse_values_def decimal_def unsigned_decimal_def
      digit_val_def)

lemma Teff_44900:
  assumes "length seg = 86"
  shows "interpolate_in CubicSpline Teff seg 44900 = Inr (seg ! 0, 0)"
  using first_value_returns [OF Teff_ends(3) assms] Teff_first_nearest Teff_first_distinct
  by (simp add: Teff_ends)

lemma row_0:
  "logTeff ! 0 = 4.652" "logL ! 0 = 5.82" "Mbol ! 0 = - 9.81" "Rsun ! 0 = 13.43"
  "Mv ! 0 = - 5.80" "BV ! 0 = - 0.330" "Msun ! 0 = 59.00"
  by (simp_all add: table_defs)

text \<open>
  C10.  At the first row the slice is \<open>sptype[-1:1]\<close>: the lower bound counts from the
  end and becomes 85, the upper bound is 1, and the slice is empty.  The run for the
  first temperature of the table prints it so.
\<close>

theorem bracket_at_first_row:
  "sptype_bracket 0 = []
   \<and> main CubicSpline decimal
       \<lparr>given = Some ''Teff'', val = Some ''44900'', atdist = None, mas = False, Ebv = 0,
        binary = False\<rparr> =
     Inr [StarHeader 1 ''Teff'' 44900,
          Quantity ''logTeff'' 4.652, Quantity ''logL'' 5.82, Quantity ''Mbol'' (- 9.81),
          Quantity ''R'' 13.43, Quantity ''Mv'' (- 5.80), Quantity ''BV'' (- 0.330),
          Quantity ''M'' 59.00, SpType [], Msg Note]"
proof -
  have b: "sptype_bracket 0 = []"
    by (simp add: sptype_bracket_def py_slice_def sptype_def)
  show ?thesis
    by (simp add: run_defs parse_44900 Teff_44900 column_ends row_0 b)
qed

lemma parse_5770_5660: "read_values decimal ''5770,5660'' = Inr ([5770, 5660], 2)"
  by (simp add: read_values_def parse_values_def decimal_def unsigned_decimal_def digit_val_def)

lemma idx_peq_49_52:
  "idx_peq 86 49 = Inr [44, 45, 46, 47, 48, 49, 50, 51, 52, 53, 54]"
  "idx_peq 86 52 = Inr [47, 48, 49, 50, 51, 52, 53, 54, 55, 56, 57]"
  by (simp_all add: idx_peq_def window_branch_def margin_def linspace_int_def upt_rec)

lemma Teff_nearest_5770: "argmin (map (\<lambda>x. \<bar>5770 - x\<bar>) Teff) = Inr 49"
  by (simp add: Teff_def argmin_def)

lemma Teff_nearest_5660: "argmin (map (\<lambda>x. \<bar>5660 - x\<bar>) Teff) = Inr 52"
  by (simp add: Teff_def argmin_def)

lemma Teff_5770:
  assumes "length seg = 86"
  shows "interpolate_in CubicSpline Teff seg 5770 = Inr (seg ! 49, 49)"
proof -
  let ?ks = "[44, 45, 46, 47, 48, 49, 50, 51, 52, 53, 54] :: int list"
  have w: "local_window Teff seg 5770 =
      Inr (49, map (\<lambda>k. Teff ! nat k) ?ks, map (\<lambda>k. seg ! nat k) ?ks)"
    using local_window_in_bounds [of 5770 Teff 49 ?ks seg] Teff_nearest_5770 idx_peq_49_52(1)
      assms Teff_ends(3)
    by simp
  have d: "distinct (map (\<lambda>k. Teff ! nat k) ?ks)" by (simp add: Teff_def)
  have h: "map (\<lambda>k. Teff ! nat k) ?ks ! 5 = 5770" by (simp add: Teff_def)
  show ?thesis
    unfolding CubicSpline_def
    using interpolate_in_at_knot [OF w d _ _ h, of NotAKnot NotAKnot] by simp
qed

lemma Teff_5660:
  assumes "length seg = 86"
  shows "interpolate_in CubicSpline Teff seg 5660 = Inr (seg ! 52, 52)"
proof -
  let ?ks = "[47, 48, 49, 50, 51, 52, 53, 54, 55, 56, 57] :: int list"
  have w: "local_window Teff seg 5660 =
      Inr (52, map (\<lambda>k. Teff ! nat k) ?ks, map (\<lambda>k. seg ! nat k) ?ks)"
    using local_window_in_bounds [of 5660 Teff 52 ?ks seg] Teff_nearest_5660 idx_peq_49_52(2)
      assms Teff_ends(3)
    by simp
  have d: "distinct (map (\<lambda>k. Teff ! nat k) ?ks)" by (simp add: Teff_def)
  have h: "map (\<lambda>k. Teff ! nat k) ?ks ! 5 = 5660" by (simp add: Teff_def)
  show ?thesis
    unfolding CubicSpline_def
    using interpolate_in_at_knot [OF w d _ _ h, of NotAKnot NotAKnot] by simp
qed

lemma rows_49_52:
  "logTeff ! 49 = 3.761" "logL ! 49 = 0.01" "Mbol ! 49 = 4.72" "Rsun ! 49 = 1.01"
  "Mv ! 49 = 4.80" "BV ! 49 = 0.650" "Msun ! 49 = 1.00"
  "logTeff ! 52 = 3.753" "logL ! 52 = - 0.05" "Mbol ! 52 = 4.88" "Rsun ! 52 = 0.98"
  "Mv ! 52 = 4.98" "BV ! 52 = 0.680" "Msun ! 52 = 0.98"
  "sptype_bracket 49 = [''G1V'', ''G2V'']" "sptype_bracket 52 = [''G4V'', ''G5V'']"
  by (simp_all add: table_defs sptype_bracket_def py_slice_def)

lemma log_flux_ratio_pos:
  fixes a b :: real
  shows "0 < log 10 ((10 powr a + 10 powr b) / 10 powr b)"
proof -
  have "(10 powr a + 10 powr b) / 10 powr b = 10 powr a / 10 powr b + 1"
    by (simp add: add_divide_distrib)
  moreover have "0 < 10 powr a / (10::real) powr b" by simp
  ultimately have one: "1 < (10 powr a + 10 powr b) / 10 powr b" by linarith
  then have "0 < (10 powr a + 10 powr b) / 10 powr b" by linarith
  with one show ?thesis by (simp only: zero_less_log_cancel_iff [of 10] one_less_numeral_iff Num.num.simps semiring_norm)
qed

text \<open>
  C1.  The claim adds the luminosities \<open>10^logL\<close> of the two stars.  The program puts
  the interpolated logarithms themselves into \<open>Lbin\<close> and adds those.  For two stars
  of 5770 K and 5660 K at 10 pc the logarithms are 0.01 and -0.05; the program prints
  \<open>4.98 - 2.5 log10 ((0.01 - 0.05) / (- 0.05))\<close>, a pair fainter than its second
  star alone, where the sum of the luminosities gives a pair brighter than it.
\<close>

theorem binary_magnitude_adds_logarithms:
  "main CubicSpline decimal
     \<lparr>given = Some ''Teff'', val = Some ''5770,5660'', atdist = Some 10, mas = False,
      Ebv = 0, binary = True\<rparr> =
   Inr [StarHeader 1 ''Teff'' 5770,
        Quantity ''logTeff'' 3.761, Quantity ''logL'' 0.01, Quantity ''Mbol'' 4.72,
        Quantity ''R'' 1.01, Quantity ''Mv'' 4.80, Apparent 4.80 10 0,
        Quantity ''BV'' 0.650, Quantity ''M'' 1.00, SpType [''G1V'', ''G2V''],
        StarHeader 2 ''Teff'' 5660,
        Quantity ''logTeff'' 3.753, Quantity ''logL'' (- 0.05), Quantity ''Mbol'' 4.88,
        Quantity ''R'' 0.98, Quantity ''Mv'' 4.98, Apparent 4.98 10 0,
        Quantity ''BV'' 0.680, Quantity ''M'' 0.98, SpType [''G4V'', ''G5V''],
        BinaryComponents 4.80 4.98,
        BinaryTotal (4.98 - 2.5 * log 10 (4 / 5)) 10 0,
        Msg Note]
   \<and> 4.98 < 4.98 - 2.5 * log 10 (4 / 5 :: real)
   \<and> 4.98 - 2.5 * log 10 ((10 powr 0.01 + 10 powr (- 0.05)) / 10 powr (- 0.05))
       < (4.98 :: real)"
proof -
  have "log 10 (4 / 5 :: real) < 0" by simp
  then have "4.98 < 4.98 - 2.5 * log 10 (4 / 5 :: real)" by simp
  moreover
  have "4.98 - 2.5 * log 10 ((10 powr 0.01 + 10 powr (- 0.05)) / 10 powr (- 0.05))
       < (4.98 :: real)"
    using log_flux_ratio_pos [of "0.01" "- 0.05"] by simp
  moreover
  have "main CubicSpline decimal
     \<lparr>given = Some ''Teff'', val = Some ''5770,5660'', atdist = Some 10, mas = False,
      Ebv = 0, binary = True\<rparr> =
   Inr [StarHeader 1 ''Teff'' 5770,
        Quantity ''logTeff'' 3.761, Quantity ''logL'' 0.01, Quantity ''Mbol'' 4.72,
        Quantity ''R'' 1.01, Quantity ''Mv'' 4.80, Apparent 4.80 10 0,
        Quantity ''BV'' 0.650, Quantity ''M'' 1.00, SpType [''G1V'', ''G2V''],
        StarHeader 2 ''Teff'' 5660,
        Quantity ''logTeff'' 3.753, Quantity ''logL'' (- 0.05), Quantity ''Mbol'' 4.88,
        Quantity ''R'' 0.98, Quantity ''Mv'' 4.98, Apparent 4.98 10 0,
        Quantity ''BV'' 0.680, Quantity ''M'' 0.98, SpType [''G4V'', ''G5V''],
        BinaryComponents 4.80 4.98,
        BinaryTotal (4.98 - 2.5 * log 10 (4 / 5)) 10 0,
        Msg Note]"
    by (simp add: run_defs parse_5770_5660 Teff_5770 Teff_5660 column_ends rows_49_52)
  ultimately show ?thesis by (intro conjI)
qed

section \<open>The example of the module's documentation\<close>

text \<open>
  The docstring of the module gives what the program must print for the temperatures
  13000 and 11500.  The model agrees with it: for both stars each of the seven
  interpolated values, rounded to three decimals, is the printed one, the nearest row is
  23, and the labels printed are B7V and B8V.  The exact values are found in two steps,
  first the derivatives at the knots, then the value of the piece that holds the query.
\<close>

lemma Teff_nearest_13000: "argmin (map (\<lambda>x. \<bar>13000 - x\<bar>) Teff) = Inr 23"
  by (simp add: Teff_def argmin_def)

lemma idx_peq_23_13000: "idx_peq 86 23 = Inr [18, 19, 20, 21, 22, 23, 24, 25, 26, 27, 28]"
  by (simp add: idx_peq_def window_branch_def margin_def linspace_int_def upt_rec)

lemma window_13000:
  assumes "length seg = 86"
  shows "local_window Teff seg 13000 =
     Inr (23, [17000, 16400, 15700, 14500, 14000, 12300, 10700, 10400, 9700, 9300, 8800],
         map (\<lambda>k. seg ! k) [18, 19, 20, 21, 22, 23, 24, 25, 26, 27, 28])"
proof -
  have "map (\<lambda>k. Teff ! nat k) [18, 19, 20, 21, 22, 23, 24, 25, 26, 27, 28]
      = [17000, 16400, 15700, 14500, 14000, 12300, 10700, 10400, 9700, 9300, 8800]"
    by (simp add: Teff_def)
  moreover have "local_window Teff seg 13000 =
     Inr (23, map (\<lambda>k. Teff ! nat k) [18, 19, 20, 21, 22, 23, 24, 25, 26, 27, 28],
         map (\<lambda>k. seg ! nat k) [18, 19, 20, 21, 22, 23, 24, 25, 26, 27, 28])"
    using local_window_in_bounds [of 13000 Teff 23 "[18, 19, 20, 21, 22, 23, 24, 25, 26, 27, 28]" seg]
      Teff_nearest_13000 idx_peq_23_13000 assms Teff_ends(3)
    by simp
  ultimately show ?thesis by simp
qed

lemma argsort_13000:
  "argsort [17000, 16400, 15700, 14500, 14000, 12300, 10700, 10400, 9700, 9300, 8800]
     = [10, 9, 8, 7, 6, 5, 4, 3, 2, 1, 0]"
  by (simp add: argsort_def upt_rec)

lemma derivatives_13000_logTeff:
  "knot_derivatives NotAKnot NotAKnot
     [8800, 9300, 9700, 10400, 10700, 12300, 14000, 14500, 15700, 16400, 17000]
     [493 / 125, 496 / 125, 3987 / 1000, 4017 / 1000, 4029 / 1000, 409 / 100, 2073 / 500,
     4161 / 1000, 1049 / 250, 843 / 200, 423 / 100]
   = [53205606502204501 / 1141952043802752000000,
     124542401204704411 / 2569392098556192000000, 4370726213223211 / 95162670316896000000,
     416362089908324909 / 10277568394224768000000,
     25482190285322423 / 642348024639048000000, 142034058663927 / 3965111263204000000,
     62561126562091 / 2055513678844953600, 5250887111809 / 176469237538200000,
     361236455297729 / 12846960492780960000, 279114000684317 / 10705800410650800000,
     255421017420433 / 10705800410650800000]"
  by (simp add: knot_derivatives_def first_row_def last_row_def inner_rows_def solve_banded_def
      upt_rec Let_def cong: let_weak_cong)

lemma run_13000_logTeff:
  "interpolate_in CubicSpline Teff logTeff 13000 = Inr (12836146909617212011 / 3119976119675376000, 23)"
  by (simp add: interpolate_in_def window_13000 argsort_13000 logTeff_ends logTeff_def
      CubicSpline_def CubicSpline_bc_def derivatives_13000_logTeff spline_curve_def find_interval_def
      piece_def eval_piece_def Let_def cong: let_weak_cong)

lemma derivatives_13000_logL:
  "knot_derivatives NotAKnot NotAKnot
     [8800, 9300, 9700, 10400, 10700, 12300, 14000, 14500, 15700, 16400, 17000]
     [69 / 50, 149 / 100, 79 / 50, 9 / 5, 93 / 50, 219 / 100, 62 / 25, 257 / 100, 277 / 100,
     289 / 100, 299 / 100]
   = [32343696263778929 / 114195204380275200000, 49702385994438239 / 256939209855619200000,
     532967604455779 / 1903253406337920000, 252235156542833257 / 1027756839422476800000,
     335599925257313 / 1835280070397280000, 76763165827263 / 396511126320400000,
     22650722563702733 / 128469604927809600000, 218944513403687 / 1235284662767400000,
     5383029104593009 / 32117401231952400000, 919696451399087 / 5352900205325400000,
     851076358749307 / 5352900205325400000]"
  by (simp add: knot_derivatives_def first_row_def last_row_def inner_rows_def solve_banded_def
      upt_rec Let_def cong: let_weak_cong)

lemma run_13000_logL:
  "interpolate_in CubicSpline Teff logL 13000 = Inr (144393383948226313 / 62399522393507520, 23)"
  by (simp add: interpolate_in_def window_13000 argsort_13000 logL_ends logL_def
      CubicSpline_def CubicSpline_bc_def derivatives_13000_logL spline_curve_def find_interval_def
      piece_def eval_piece_def Let_def cong: let_weak_cong)

lemma derivatives_13000_Mbol:
  "knot_derivatives NotAKnot NotAKnot
     [8800, 9300, 9700, 10400, 10700, 12300, 14000, 14500, 15700, 16400, 17000]
     [32 / 25, 51 / 50, 39 / 50, 6 / 25, 2 / 25, - (73 / 100), - (29 / 20), - (42 / 25),
     - (219 / 100), - (249 / 100), - (137 / 50)]
   = [- (65444558920984829 / 114195204380275200000),
     - (133889514502806659 / 256939209855619200000),
     - (6790676050816691 / 9516267031689600000),
     - (645068839710915733 / 1027756839422476800000),
     - (31650800719227163 / 64234802463904800000),
     - (551120338028279 / 1189533378961200000),
     - (57757694758569821 / 128469604927809600000), - (20020871500583 / 44117309384550000),
     - (13556580319337683 / 32117401231952400000),
     - (2291625162508859 / 5352900205325400000), - (2141834833709719 / 5352900205325400000)]"
  by (simp add: knot_derivatives_def first_row_def last_row_def inner_rows_def solve_banded_def
      upt_rec Let_def cong: let_weak_cong)

lemma run_13000_Mbol:
  "interpolate_in CubicSpline Teff Mbol 13000 = Inr (- (321884262469407389 / 311997611967537600), 23)"
  by (simp add: interpolate_in_def window_13000 argsort_13000 Mbol_ends Mbol_def
      CubicSpline_def CubicSpline_bc_def derivatives_13000_Mbol spline_curve_def find_interval_def
      piece_def eval_piece_def Let_def cong: let_weak_cong)

lemma derivatives_13000_Rsun:
  "knot_derivatives NotAKnot NotAKnot
     [8800, 9300, 9700, 10400, 10700, 12300, 14000, 14500, 15700, 16400, 17000]
     [53 / 25, 107 / 50, 219 / 100, 49 / 20, 249 / 100, 143 / 50, 147 / 50, 327 / 100,
     84 / 25, 173 / 50, 361 / 100]
   = [14962002143150053 / 114195204380275200000, 6624063573732523 / 256939209855619200000,
     520297297176959 / 1903253406337920000, 228028772167207229 / 1027756839422476800000,
     1624832816778259 / 12846960492780960000, 49656858283433 / 1189533378961200000,
     73447056552869371 / 128469604927809600000, 81765139782143 / 154410582845925000,
     131458291842413 / 32117401231952400000, 1273814648100949 / 5352900205325400000,
     1230955351924409 / 5352900205325400000]"
  by (simp add: knot_derivatives_def first_row_def last_row_def inner_rows_def solve_banded_def
      upt_rec Let_def cong: let_weak_cong)

lemma run_13000_Rsun:
  "interpolate_in CubicSpline Teff Rsun 13000 = Inr (874435628366938123 / 311997611967537600, 23)"
  by (simp add: interpolate_in_def window_13000 argsort_13000 Rsun_ends Rsun_def
      CubicSpline_def CubicSpline_bc_def derivatives_13000_Rsun spline_curve_def find_interval_def
      piece_def eval_piece_def Let_def cong: let_weak_cong)

lemma derivatives_13000_Mv:
  "knot_derivatives NotAKnot NotAKnot
     [8800, 9300, 9700, 10400, 10700, 12300, 14000, 14500, 15700, 16400, 17000]
     [27 / 20, 29 / 25, 99 / 100, 3 / 5, 1 / 2, 0, - (2 / 5), - (11 / 20), - (17 / 20), - 1,
     - (6 / 5)]
   = [- (2825698952411567 / 6344178021126400000),
     - (5207616466839737 / 14274400547534400000), - (820492955832651 / 1586044505281600000),
     - (23922668024660023 / 57097602190137600000),
     - (1061788451694751 / 3568600136883600000), - (79546135723949 / 297383344740300000),
     - (20159764113347 / 71372002737672000), - (4088324028997 / 13725385141860000),
     - (36864891073147 / 178430006844180000), - (2501454820887 / 9912778158010000),
     - (12984996945101 / 29738334474030000)]"
  by (simp add: knot_derivatives_def first_row_def last_row_def inner_rows_def solve_banded_def
      upt_rec Let_def cong: let_weak_cong)

lemma run_13000_Mv:
  "interpolate_in CubicSpline Teff Mv 13000 = Inr (- (142571105392243 / 866660033243160), 23)"
  by (simp add: interpolate_in_def window_13000 argsort_13000 Mv_ends Mv_def
      CubicSpline_def CubicSpline_bc_def derivatives_13000_Mv spline_curve_def find_interval_def
      piece_def eval_piece_def Let_def cong: let_weak_cong)

lemma derivatives_13000_BV:
  "knot_derivatives NotAKnot NotAKnot
     [8800, 9300, 9700, 10400, 10700, 12300, 14000, 14500, 15700, 16400, 17000]
     [7 / 100, 7 / 200, 0, - (1 / 20), - (7 / 100), - (109 / 1000), - (16 / 125), - (7 / 50),
     - (39 / 250), - (33 / 200), - (89 / 500)]
   = [- (10082084356256027 / 228390408760550400000),
     - (44652311521011989 / 513878419711238400000),
     - (7838627105330393 / 95162670316896000000),
     - (704618661772065743 / 10277568394224768000000),
     - (38959960605147509 / 642348024639048000000),
     - (13989644422807 / 2379066757922400000),
     - (28938114607172179 / 1284696049278096000000),
     - (269680088123821 / 12352846627674000000),
     - (3303521476999847 / 321174012319524000000),
     - (888483569265511 / 53529002053254000000), - (1477106018787011 / 53529002053254000000)]"
  by (simp add: knot_derivatives_def first_row_def last_row_def inner_rows_def solve_banded_def
      upt_rec Let_def cong: let_weak_cong)

lemma run_13000_BV:
  "interpolate_in CubicSpline Teff BV 13000 = Inr (- (354480867557618419 / 3119976119675376000), 23)"
  by (simp add: interpolate_in_def window_13000 argsort_13000 BV_ends BV_def
      CubicSpline_def CubicSpline_bc_def derivatives_13000_BV spline_curve_def find_interval_def
      piece_def eval_piece_def Let_def cong: let_weak_cong)

lemma derivatives_13000_Msun:
  "knot_derivatives NotAKnot NotAKnot
     [8800, 9300, 9700, 10400, 10700, 12300, 14000, 14500, 15700, 16400, 17000]
     [99 / 50, 41 / 20, 109 / 50, 67 / 25, 11 / 4, 169 / 50, 98 / 25, 43 / 10, 47 / 10,
     51 / 10, 27 / 5]
   = [28551767551459223 / 114195204380275200000, 38077962115420793 / 256939209855619200000,
     366354219537223 / 634417802112640000, 425184360856734559 / 1027756839422476800000,
     346644908804783 / 1835280070397280000, 125184730987861 / 396511126320400000,
     90572259275272631 / 128469604927809600000, 793904466624809 / 1235284662767400000,
     13158155508766123 / 32117401231952400000, 3347529329275829 / 5352900205325400000,
     1581419456842489 / 5352900205325400000]"
  by (simp add: knot_derivatives_def first_row_def last_row_def inner_rows_def solve_banded_def
      upt_rec Let_def cong: let_weak_cong)

lemma run_13000_Msun:
  "interpolate_in CubicSpline Teff Msun 13000 = Inr (1103288381994420311 / 311997611967537600, 23)"
  by (simp add: interpolate_in_def window_13000 argsort_13000 Msun_ends Msun_def
      CubicSpline_def CubicSpline_bc_def derivatives_13000_Msun spline_curve_def find_interval_def
      piece_def eval_piece_def Let_def cong: let_weak_cong)

lemma printed_13000:
  "map (\<lambda>(key, col).
          (key, map_sum id (\<lambda>(y, i). (\<lfloor>1000 * y + 1 / 2\<rfloor>, i))
                  (interpolate_in CubicSpline Teff col 13000)))
     (tl convers)
   = [(''logTeff'', Inr (4114, 23)), (''logL'', Inr (2314, 23)),
      (''Mbol'', Inr (- 1032, 23)), (''R'', Inr (2803, 23)), (''Mv'', Inr (- 165, 23)),
      (''BV'', Inr (- 114, 23)), (''M'', Inr (3536, 23))]"
  by (simp add: convers_def run_13000_logTeff run_13000_logL run_13000_Mbol run_13000_Rsun run_13000_Mv run_13000_BV run_13000_Msun)

lemma Teff_nearest_11500: "argmin (map (\<lambda>x. \<bar>11500 - x\<bar>) Teff) = Inr 23"
  by (simp add: Teff_def argmin_def)

lemma idx_peq_23_11500: "idx_peq 86 23 = Inr [18, 19, 20, 21, 22, 23, 24, 25, 26, 27, 28]"
  by (simp add: idx_peq_def window_branch_def margin_def linspace_int_def upt_rec)

lemma window_11500:
  assumes "length seg = 86"
  shows "local_window Teff seg 11500 =
     Inr (23, [17000, 16400, 15700, 14500, 14000, 12300, 10700, 10400, 9700, 9300, 8800],
         map (\<lambda>k. seg ! k) [18, 19, 20, 21, 22, 23, 24, 25, 26, 27, 28])"
proof -
  have "map (\<lambda>k. Teff ! nat k) [18, 19, 20, 21, 22, 23, 24, 25, 26, 27, 28]
      = [17000, 16400, 15700, 14500, 14000, 12300, 10700, 10400, 9700, 9300, 8800]"
    by (simp add: Teff_def)
  moreover have "local_window Teff seg 11500 =
     Inr (23, map (\<lambda>k. Teff ! nat k) [18, 19, 20, 21, 22, 23, 24, 25, 26, 27, 28],
         map (\<lambda>k. seg ! nat k) [18, 19, 20, 21, 22, 23, 24, 25, 26, 27, 28])"
    using local_window_in_bounds [of 11500 Teff 23 "[18, 19, 20, 21, 22, 23, 24, 25, 26, 27, 28]" seg]
      Teff_nearest_11500 idx_peq_23_11500 assms Teff_ends(3)
    by simp
  ultimately show ?thesis by simp
qed

lemma argsort_11500:
  "argsort [17000, 16400, 15700, 14500, 14000, 12300, 10700, 10400, 9700, 9300, 8800]
     = [10, 9, 8, 7, 6, 5, 4, 3, 2, 1, 0]"
  by (simp add: argsort_def upt_rec)

lemma derivatives_11500_logTeff:
  "knot_derivatives NotAKnot NotAKnot
     [8800, 9300, 9700, 10400, 10700, 12300, 14000, 14500, 15700, 16400, 17000]
     [493 / 125, 496 / 125, 3987 / 1000, 4017 / 1000, 4029 / 1000, 409 / 100, 2073 / 500,
     4161 / 1000, 1049 / 250, 843 / 200, 423 / 100]
   = [53205606502204501 / 1141952043802752000000,
     124542401204704411 / 2569392098556192000000, 4370726213223211 / 95162670316896000000,
     416362089908324909 / 10277568394224768000000,
     25482190285322423 / 642348024639048000000, 142034058663927 / 3965111263204000000,
     62561126562091 / 2055513678844953600, 5250887111809 / 176469237538200000,
     361236455297729 / 12846960492780960000, 279114000684317 / 10705800410650800000,
     255421017420433 / 10705800410650800000]"
  by (simp add: knot_derivatives_def first_row_def last_row_def inner_rows_def solve_banded_def
      upt_rec Let_def cong: let_weak_cong)

lemma run_11500_logTeff:
  "interpolate_in CubicSpline Teff logTeff 11500 = Inr (767090100170167237 / 188925889599720000, 23)"
  by (simp add: interpolate_in_def window_11500 argsort_11500 logTeff_ends logTeff_def
      CubicSpline_def CubicSpline_bc_def derivatives_11500_logTeff spline_curve_def find_interval_def
      piece_def eval_piece_def Let_def cong: let_weak_cong)

lemma derivatives_11500_logL:
  "knot_derivatives NotAKnot NotAKnot
     [8800, 9300, 9700, 10400, 10700, 12300, 14000, 14500, 15700, 16400, 17000]
     [69 / 50, 149 / 100, 79 / 50, 9 / 5, 93 / 50, 219 / 100, 62 / 25, 257 / 100, 277 / 100,
     289 / 100, 299 / 100]
   = [32343696263778929 / 114195204380275200000, 49702385994438239 / 256939209855619200000,
     532967604455779 / 1903253406337920000, 252235156542833257 / 1027756839422476800000,
     335599925257313 / 1835280070397280000, 76763165827263 / 396511126320400000,
     22650722563702733 / 128469604927809600000, 218944513403687 / 1235284662767400000,
     5383029104593009 / 32117401231952400000, 919696451399087 / 5352900205325400000,
     851076358749307 / 5352900205325400000]"
  by (simp add: knot_derivatives_def first_row_def last_row_def inner_rows_def solve_banded_def
      upt_rec Let_def cong: let_weak_cong)

lemma run_11500_logL:
  "interpolate_in CubicSpline Teff logL 11500 = Inr (38216925851001497 / 18892588959972000, 23)"
  by (simp add: interpolate_in_def window_11500 argsort_11500 logL_ends logL_def
      CubicSpline_def CubicSpline_bc_def derivatives_11500_logL spline_curve_def find_interval_def
      piece_def eval_piece_def Let_def cong: let_weak_cong)

lemma derivatives_11500_Mbol:
  "knot_derivatives NotAKnot NotAKnot
     [8800, 9300, 9700, 10400, 10700, 12300, 14000, 14500, 15700, 16400, 17000]
     [32 / 25, 51 / 50, 39 / 50, 6 / 25, 2 / 25, - (73 / 100), - (29 / 20), - (42 / 25),
     - (219 / 100), - (249 / 100), - (137 / 50)]
   = [- (65444558920984829 / 114195204380275200000),
     - (133889514502806659 / 256939209855619200000),
     - (6790676050816691 / 9516267031689600000),
     - (645068839710915733 / 1027756839422476800000),
     - (31650800719227163 / 64234802463904800000),
     - (551120338028279 / 1189533378961200000),
     - (57757694758569821 / 128469604927809600000), - (20020871500583 / 44117309384550000),
     - (13556580319337683 / 32117401231952400000),
     - (2291625162508859 / 5352900205325400000), - (2141834833709719 / 5352900205325400000)]"
  by (simp add: knot_derivatives_def first_row_def last_row_def inner_rows_def solve_banded_def
      upt_rec Let_def cong: let_weak_cong)

lemma run_11500_Mbol:
  "interpolate_in CubicSpline Teff Mbol 11500 = Inr (- (6251285674679141 / 18892588959972000), 23)"
  by (simp add: interpolate_in_def window_11500 argsort_11500 Mbol_ends Mbol_def
      CubicSpline_def CubicSpline_bc_def derivatives_11500_Mbol spline_curve_def find_interval_def
      piece_def eval_piece_def Let_def cong: let_weak_cong)

lemma derivatives_11500_Rsun:
  "knot_derivatives NotAKnot NotAKnot
     [8800, 9300, 9700, 10400, 10700, 12300, 14000, 14500, 15700, 16400, 17000]
     [53 / 25, 107 / 50, 219 / 100, 49 / 20, 249 / 100, 143 / 50, 147 / 50, 327 / 100,
     84 / 25, 173 / 50, 361 / 100]
   = [14962002143150053 / 114195204380275200000, 6624063573732523 / 256939209855619200000,
     520297297176959 / 1903253406337920000, 228028772167207229 / 1027756839422476800000,
     1624832816778259 / 12846960492780960000, 49656858283433 / 1189533378961200000,
     73447056552869371 / 128469604927809600000, 81765139782143 / 154410582845925000,
     131458291842413 / 32117401231952400000, 1273814648100949 / 5352900205325400000,
     1230955351924409 / 5352900205325400000]"
  by (simp add: knot_derivatives_def first_row_def last_row_def inner_rows_def solve_banded_def
      upt_rec Let_def cong: let_weak_cong)

lemma run_11500_Rsun:
  "interpolate_in CubicSpline Teff Rsun 11500 = Inr (50857833923018389 / 18892588959972000, 23)"
  by (simp add: interpolate_in_def window_11500 argsort_11500 Rsun_ends Rsun_def
      CubicSpline_def CubicSpline_bc_def derivatives_11500_Rsun spline_curve_def find_interval_def
      piece_def eval_piece_def Let_def cong: let_weak_cong)

lemma derivatives_11500_Mv:
  "knot_derivatives NotAKnot NotAKnot
     [8800, 9300, 9700, 10400, 10700, 12300, 14000, 14500, 15700, 16400, 17000]
     [27 / 20, 29 / 25, 99 / 100, 3 / 5, 1 / 2, 0, - (2 / 5), - (11 / 20), - (17 / 20), - 1,
     - (6 / 5)]
   = [- (2825698952411567 / 6344178021126400000),
     - (5207616466839737 / 14274400547534400000), - (820492955832651 / 1586044505281600000),
     - (23922668024660023 / 57097602190137600000),
     - (1061788451694751 / 3568600136883600000), - (79546135723949 / 297383344740300000),
     - (20159764113347 / 71372002737672000), - (4088324028997 / 13725385141860000),
     - (36864891073147 / 178430006844180000), - (2501454820887 / 9912778158010000),
     - (12984996945101 / 29738334474030000)]"
  by (simp add: knot_derivatives_def first_row_def last_row_def inner_rows_def solve_banded_def
      upt_rec Let_def cong: let_weak_cong)

lemma run_11500_Mv:
  "interpolate_in CubicSpline Teff Mv 11500 = Inr (256089138123361 / 1049588275554000, 23)"
  by (simp add: interpolate_in_def window_11500 argsort_11500 Mv_ends Mv_def
      CubicSpline_def CubicSpline_bc_def derivatives_11500_Mv spline_curve_def find_interval_def
      piece_def eval_piece_def Let_def cong: let_weak_cong)

lemma derivatives_11500_BV:
  "knot_derivatives NotAKnot NotAKnot
     [8800, 9300, 9700, 10400, 10700, 12300, 14000, 14500, 15700, 16400, 17000]
     [7 / 100, 7 / 200, 0, - (1 / 20), - (7 / 100), - (109 / 1000), - (16 / 125), - (7 / 50),
     - (39 / 250), - (33 / 200), - (89 / 500)]
   = [- (10082084356256027 / 228390408760550400000),
     - (44652311521011989 / 513878419711238400000),
     - (7838627105330393 / 95162670316896000000),
     - (704618661772065743 / 10277568394224768000000),
     - (38959960605147509 / 642348024639048000000),
     - (13989644422807 / 2379066757922400000),
     - (28938114607172179 / 1284696049278096000000),
     - (269680088123821 / 12352846627674000000),
     - (3303521476999847 / 321174012319524000000),
     - (888483569265511 / 53529002053254000000), - (1477106018787011 / 53529002053254000000)]"
  by (simp add: knot_derivatives_def first_row_def last_row_def inner_rows_def solve_banded_def
      upt_rec Let_def cong: let_weak_cong)

lemma run_11500_BV:
  "interpolate_in CubicSpline Teff BV 11500 = Inr (- (18978441037468447 / 188925889599720000), 23)"
  by (simp add: interpolate_in_def window_11500 argsort_11500 BV_ends BV_def
      CubicSpline_def CubicSpline_bc_def derivatives_11500_BV spline_curve_def find_interval_def
      piece_def eval_piece_def Let_def cong: let_weak_cong)

lemma derivatives_11500_Msun:
  "knot_derivatives NotAKnot NotAKnot
     [8800, 9300, 9700, 10400, 10700, 12300, 14000, 14500, 15700, 16400, 17000]
     [99 / 50, 41 / 20, 109 / 50, 67 / 25, 11 / 4, 169 / 50, 98 / 25, 43 / 10, 47 / 10,
     51 / 10, 27 / 5]
   = [28551767551459223 / 114195204380275200000, 38077962115420793 / 256939209855619200000,
     366354219537223 / 634417802112640000, 425184360856734559 / 1027756839422476800000,
     346644908804783 / 1835280070397280000, 125184730987861 / 396511126320400000,
     90572259275272631 / 128469604927809600000, 793904466624809 / 1235284662767400000,
     13158155508766123 / 32117401231952400000, 3347529329275829 / 5352900205325400000,
     1581419456842489 / 5352900205325400000]"
  by (simp add: knot_derivatives_def first_row_def last_row_def inner_rows_def solve_banded_def
      upt_rec Let_def cong: let_weak_cong)

lemma run_11500_Msun:
  "interpolate_in CubicSpline Teff Msun 11500 = Inr (57426529008674999 / 18892588959972000, 23)"
  by (simp add: interpolate_in_def window_11500 argsort_11500 Msun_ends Msun_def
      CubicSpline_def CubicSpline_bc_def derivatives_11500_Msun spline_curve_def find_interval_def
      piece_def eval_piece_def Let_def cong: let_weak_cong)

lemma printed_11500:
  "map (\<lambda>(key, col).
          (key, map_sum id (\<lambda>(y, i). (\<lfloor>1000 * y + 1 / 2\<rfloor>, i))
                  (interpolate_in CubicSpline Teff col 11500)))
     (tl convers)
   = [(''logTeff'', Inr (4060, 23)), (''logL'', Inr (2023, 23)),
      (''Mbol'', Inr (- 331, 23)), (''R'', Inr (2692, 23)), (''Mv'', Inr (244, 23)),
      (''BV'', Inr (- 100, 23)), (''M'', Inr (3040, 23))]"
  by (simp add: convers_def run_11500_logTeff run_11500_logL run_11500_Mbol run_11500_Rsun run_11500_Mv run_11500_BV run_11500_Msun)

lemma printed_labels: "sptype_bracket 23 = [''B7V'', ''B8V'']"
  by (simp add: sptype_bracket_def py_slice_def sptype_def)

end
